theory Spec2Isabelle
  imports Complex_Main "HOL-Library.Sublist"
begin

section \<open>ECMAScript string primitives\<close>

text \<open>
  A source string is modelled as a \<^typ>\<open>string\<close>: one \<^typ>\<open>char\<close> per UTF-16 code unit,
  for the code units below 256. Numbers of the source are IEEE doubles; they are modelled
  as exact rationals (\<^typ>\<open>rat\<close>), so a statement about a threshold is a statement about
  the exact value of the expression the source evaluates.
\<close>

definition isWhiteSpace :: "char \<Rightarrow> bool" where
  \<comment> \<open>the class \<open>\s\<close> (WhiteSpace and LineTerminator), within the 8-bit range\<close>
  "isWhiteSpace c = (of_char c \<in> {9, 10, 11, 12, 13, 32, 160 :: nat})"

definition trim :: "string \<Rightarrow> string" where
  "trim s = rev (dropWhile isWhiteSpace (rev (dropWhile isWhiteSpace s)))"

definition toLowerChar :: "char \<Rightarrow> char" where
  "toLowerChar c =
     (let n = (of_char c :: nat) in if 65 \<le> n \<and> n \<le> 90 then char_of (n + 32) else c)"

definition toUpperChar :: "char \<Rightarrow> char" where
  "toUpperChar c =
     (let n = (of_char c :: nat) in if 97 \<le> n \<and> n \<le> 122 then char_of (n - 32) else c)"

definition toLowerCase :: "string \<Rightarrow> string" where
  \<comment> \<open>\<open>String.prototype.toLowerCase\<close> on ASCII text\<close>
  "toLowerCase s = map toLowerChar s"

definition toUpperCase :: "string \<Rightarrow> string" where
  \<comment> \<open>\<open>String.prototype.toUpperCase\<close> on ASCII text\<close>
  "toUpperCase s = map toUpperChar s"

fun includesStr :: "string \<Rightarrow> string \<Rightarrow> bool" where
  \<comment> \<open>\<open>s.includes(t)\<close>\<close>
  "includesStr [] t = (t = [])"
| "includesStr (c # cs) t = (prefix t (c # cs) \<or> includesStr cs t)"

definition startsWith :: "string \<Rightarrow> string \<Rightarrow> bool" where
  "startsWith s t = prefix t s"

definition endsWith :: "string \<Rightarrow> string \<Rightarrow> bool" where
  "endsWith s t = suffix t s"

subsection \<open>Regular expressions\<close>

text \<open>
  The regular expressions of the source are translated one by one into matchers. A
  cursor is the rest of the input together with the flag "the previous character is a
  word character", which \<open>\b\<close> needs. A matcher returns the cursors at which a match
  started at the given cursor can end, the preferred one first, as the backtracking
  matcher of ECMAScript tries them.
\<close>

type_synonym cursor = "bool \<times> string"
type_synonym rx = "cursor \<Rightarrow> cursor list"

definition isDigit :: "char \<Rightarrow> bool" where
  "isDigit c = (let n = (of_char c :: nat) in 48 \<le> n \<and> n \<le> 57)"

definition isLower :: "char \<Rightarrow> bool" where
  "isLower c = (let n = (of_char c :: nat) in 97 \<le> n \<and> n \<le> 122)"

definition isUpper :: "char \<Rightarrow> bool" where
  "isUpper c = (let n = (of_char c :: nat) in 65 \<le> n \<and> n \<le> 90)"

definition isWordChar :: "char \<Rightarrow> bool" where
  \<comment> \<open>the class \<open>\w\<close>\<close>
  "isWordChar c = (isDigit c \<or> isLower c \<or> isUpper c \<or> c = CHR ''_'')"

definition rxChar :: "(char \<Rightarrow> bool) \<Rightarrow> rx" where
  \<comment> \<open>one character of a class\<close>
  "rxChar P cur =
     (case snd cur of [] \<Rightarrow> [] | c # cs \<Rightarrow> if P c then [(isWordChar c, cs)] else [])"

definition rxSeq :: "rx \<Rightarrow> rx \<Rightarrow> rx" where
  "rxSeq a b cur = concat (map b (a cur))"

definition rxSeqs :: "rx list \<Rightarrow> rx" where
  \<comment> \<open>a concatenation of several matchers\<close>
  "rxSeqs rs = foldr rxSeq rs (\<lambda>cur. [cur])"

definition rxNone :: rx where
  \<comment> \<open>a code unit beyond the 8-bit range: no character of a modelled string matches it\<close>
  "rxNone cur = []"

definition rxAlt :: "rx \<Rightarrow> rx \<Rightarrow> rx" where
  "rxAlt a b cur = a cur @ b cur"

definition rxOpt :: "rx \<Rightarrow> rx" where
  \<comment> \<open>the greedy \<open>?\<close>\<close>
  "rxOpt a cur = a cur @ [cur]"

fun rxLit :: "string \<Rightarrow> rx" where
  \<comment> \<open>a literal, case-sensitive\<close>
  "rxLit [] cur = [cur]"
| "rxLit (p # ps) cur = rxSeq (rxChar (\<lambda>c. c = p)) (rxLit ps) cur"

fun rxLitI :: "string \<Rightarrow> rx" where
  \<comment> \<open>a literal under the flag \<open>i\<close>\<close>
  "rxLitI [] cur = [cur]"
| "rxLitI (p # ps) cur =
     rxSeq (rxChar (\<lambda>c. toLowerChar c = toLowerChar p)) (rxLitI ps) cur"

fun rxManyFrom :: "(char \<Rightarrow> bool) \<Rightarrow> bool \<Rightarrow> string \<Rightarrow> cursor list" where
  "rxManyFrom P w [] = [(w, [])]"
| "rxManyFrom P w (c # cs) =
     (if P c then rxManyFrom P (isWordChar c) cs @ [(w, c # cs)] else [(w, c # cs)])"

definition rxMany :: "(char \<Rightarrow> bool) \<Rightarrow> rx" where
  \<comment> \<open>the greedy \<open>*\<close> of a character class: the longest run first\<close>
  "rxMany P cur = rxManyFrom P (fst cur) (snd cur)"

definition rxMany1 :: "(char \<Rightarrow> bool) \<Rightarrow> rx" where
  \<comment> \<open>the greedy \<open>+\<close> of a character class\<close>
  "rxMany1 P = rxSeq (rxChar P) (rxMany P)"

definition rxWordB :: rx where
  \<comment> \<open>the assertion \<open>\b\<close>\<close>
  "rxWordB cur =
     (if fst cur \<noteq> (case snd cur of [] \<Rightarrow> False | c # _ \<Rightarrow> isWordChar c) then [cur] else [])"

definition rxEnd :: rx where
  \<comment> \<open>the assertion \<open>$\<close> (no flag \<open>m\<close>)\<close>
  "rxEnd cur = (if snd cur = [] then [cur] else [])"

definition rxAhead :: "rx \<Rightarrow> rx" where
  \<comment> \<open>the lookahead \<open>(?=...)\<close>\<close>
  "rxAhead a cur = (if a cur \<noteq> [] then [cur] else [])"

fun rxSearch :: "rx \<Rightarrow> bool \<Rightarrow> string \<Rightarrow> bool" where
  \<comment> \<open>\<open>regex.test(s)\<close> for an unanchored expression: a match starts somewhere\<close>
  "rxSearch r w [] = (r (w, []) \<noteq> [])"
| "rxSearch r w (c # cs) = (r (w, c # cs) \<noteq> [] \<or> rxSearch r (isWordChar c) cs)"

definition rxTest :: "rx \<Rightarrow> string \<Rightarrow> bool" where
  "rxTest r s = rxSearch r False s"

definition rxTestAtStart :: "rx \<Rightarrow> string \<Rightarrow> bool" where
  \<comment> \<open>\<open>regex.test(s)\<close> for an expression that begins with \<open>^\<close>\<close>
  "rxTestAtStart r s = (r (False, s) \<noteq> [])"

fun rxCountFrom :: "rx \<Rightarrow> bool \<Rightarrow> nat \<Rightarrow> string \<Rightarrow> nat" where
  \<comment> \<open>the number of matches of a global expression whose matches are not empty:
      after a match the scan resumes where the match ended (\<open>skip\<close> characters on)\<close>
  "rxCountFrom r w skip [] = 0"
| "rxCountFrom r w skip (c # cs) =
     (if skip > 0 then rxCountFrom r (isWordChar c) (skip - 1) cs
      else case r (w, c # cs) of
             [] \<Rightarrow> rxCountFrom r (isWordChar c) 0 cs
           | e # _ \<Rightarrow> Suc (rxCountFrom r (isWordChar c) (length cs - length (snd e)) cs))"

definition rxCount :: "rx \<Rightarrow> string \<Rightarrow> nat" where
  \<comment> \<open>\<open>s.match(regex)?.length ?? 0\<close> for a global expression\<close>
  "rxCount r s = rxCountFrom r False 0 s"

fun rxReplaceFrom :: "rx \<Rightarrow> (string \<Rightarrow> string) \<Rightarrow> bool \<Rightarrow> nat \<Rightarrow> string \<Rightarrow> string" where
  \<comment> \<open>\<open>s.replace(regex, ...)\<close> for a global expression: each match, found from left to
      right, is replaced by \<open>f\<close> of the matched text\<close>
  "rxReplaceFrom r f w skip [] = (case r (w, []) of [] \<Rightarrow> [] | e # _ \<Rightarrow> f [])"
| "rxReplaceFrom r f w skip (c # cs) =
     (if skip > 0 then rxReplaceFrom r f (isWordChar c) (skip - 1) cs
      else case r (w, c # cs) of
             [] \<Rightarrow> c # rxReplaceFrom r f (isWordChar c) 0 cs
           | e # _ \<Rightarrow>
               (let n = length (c # cs) - length (snd e) in
                if n = 0 then f [] @ c # rxReplaceFrom r f (isWordChar c) 0 cs
                else f (take n (c # cs)) @ rxReplaceFrom r f (isWordChar c) (n - 1) cs))"

definition rxReplace :: "rx \<Rightarrow> (string \<Rightarrow> string) \<Rightarrow> string \<Rightarrow> string" where
  "rxReplace r f s = rxReplaceFrom r f False 0 s"

fun splitOn :: "char \<Rightarrow> string \<Rightarrow> string list" where
  \<comment> \<open>\<open>s.split(sep)\<close> for a separator of one character\<close>
  "splitOn sep [] = [[]]"
| "splitOn sep (c # cs) =
     (if c = sep then [] # splitOn sep cs
      else case splitOn sep cs of l # ls \<Rightarrow> (c # l) # ls | [] \<Rightarrow> [[c]])"

subsection \<open>Objects used as dictionaries, JSON values\<close>

text \<open>
  A \<open>Record<string, V>\<close> is modelled by the list of its own properties in the order in
  which \<open>Object.keys\<close> and \<open>Object.entries\<close> enumerate them: the keys that are array
  indices first, in ascending numeric order, then the other keys in the order of their
  creation.
\<close>

type_synonym 'v jsrecord = "(string \<times> 'v) list"

definition parseNat :: "string \<Rightarrow> nat" where
  "parseNat k = foldl (\<lambda>a c. 10 * a + (of_char c - 48)) 0 k"

definition isArrayIndex :: "string \<Rightarrow> bool" where
  \<comment> \<open>a canonical numeric string below \<open>2\<^sup>3\<^sup>2 - 1\<close>\<close>
  "isArrayIndex k =
     (k \<noteq> [] \<and> list_all isDigit k \<and> (k = ''0'' \<or> hd k \<noteq> CHR ''0'')
      \<and> parseNat k < 4294967295)"

definition recordSet :: "'v jsrecord \<Rightarrow> string \<Rightarrow> 'v \<Rightarrow> 'v jsrecord" where
  \<comment> \<open>\<open>obj[k] = v\<close>; an assignment to \<open>__proto__\<close> creates no own property\<close>
  "recordSet r k v =
     (if k = ''__proto__'' then r
      else if k \<in> set (map fst r) then map (\<lambda>kv. if fst kv = k then (k, v) else kv) r
      else if isArrayIndex k then
        (let smaller = (\<lambda>kv. isArrayIndex (fst kv) \<and> parseNat (fst kv) < parseNat k)
         in takeWhile smaller r @ [(k, v)] @ dropWhile smaller r)
      else r @ [(k, v)])"

definition objectPrototypeKeys :: "string list" where
  \<comment> \<open>the properties every plain object inherits from \<open>Object.prototype\<close>\<close>
  "objectPrototypeKeys =
     [''constructor'', ''__defineGetter__'', ''__defineSetter__'', ''hasOwnProperty'',
      ''__lookupGetter__'', ''__lookupSetter__'', ''isPrototypeOf'',
      ''propertyIsEnumerable'', ''toString'', ''valueOf'', ''__proto__'',
      ''toLocaleString'']"

datatype json =
    JNull
  | JBool bool
  | JNum string  \<comment> \<open>a number, given by the text \<open>String(n)\<close>; the source never computes with one\<close>
  | JStr string
  | JArr "json list"
  | JObj "(string \<times> json) list"

fun truthy :: "json \<Rightarrow> bool" where
  "truthy JNull = False"
| "truthy (JBool b) = b"
| "truthy (JNum n) = (n \<noteq> ''0'' \<and> n \<noteq> ''NaN'')"
| "truthy (JStr t) = (t \<noteq> [])"
| "truthy (JArr _) = True"
| "truthy (JObj _) = True"

fun getProp :: "json \<Rightarrow> string \<Rightarrow> json option" where
  \<comment> \<open>\<open>v.name\<close> for the property names the source reads (none of them is inherited,
      an index or \<open>length\<close>); \<open>None\<close> is \<open>undefined\<close>\<close>
  "getProp (JObj kvs) name = map_of kvs name"
| "getProp _ name = None"

definition getOptProp :: "json option \<Rightarrow> string \<Rightarrow> json option" where
  \<comment> \<open>\<open>v?.name\<close>\<close>
  "getOptProp v name =
     (case v of None \<Rightarrow> None | Some JNull \<Rightarrow> None | Some x \<Rightarrow> getProp x name)"

fun showNat :: "nat \<Rightarrow> string" where
  "showNat n =
     (if n < 10 then [char_of (48 + n)] else showNat (n div 10) @ [char_of (48 + n mod 10)])"

fun joinWith :: "string \<Rightarrow> string list \<Rightarrow> string" where
  \<comment> \<open>\<open>xs.join(sep)\<close> on strings\<close>
  "joinWith sep [] = []"
| "joinWith sep [x] = x"
| "joinWith sep (x # y # ys) = x @ sep @ joinWith sep (y # ys)"

fun jsString :: "json \<Rightarrow> string" where
  \<comment> \<open>\<open>String(v)\<close>\<close>
  "jsString JNull = ''null''"
| "jsString (JBool b) = (if b then ''true'' else ''false'')"
| "jsString (JNum n) = n"
| "jsString (JStr t) = t"
| "jsString (JArr xs) =
     joinWith '','' (map (\<lambda>x. case x of JNull \<Rightarrow> [] | _ \<Rightarrow> jsString x) xs)"
| "jsString (JObj _) = ''[object Object]''"

definition objectEntries :: "json \<Rightarrow> (string \<times> json) list" where
  \<comment> \<open>\<open>Object.entries(v)\<close> for a value that is not null\<close>
  "objectEntries v =
     (case v of
        JObj kvs \<Rightarrow> kvs
      | JArr xs \<Rightarrow> zip (map showNat [0 ..< length xs]) xs
      | JStr t \<Rightarrow> zip (map showNat [0 ..< length t]) (map (\<lambda>c. JStr [c]) t)
      | _ \<Rightarrow> [])"

section \<open>Discovery (services/discoveryService.ts)\<close>

datatype confidence_level = High | Medium | Low

datatype error =
    SerperError
  | EmptyProductList
  | DatasheetLoadFailed
  | PropertyOfUndefined
  | BrowserError
  | PdfFetchFailed
  | PdfParseFailed
  | SpecTableIncomplete nat
  | GeminiError
  | SynthesisParseFailed

record scored =
  url :: string
  score :: rat

record DiscoveryResult =
  primaryProductUrl :: "string option"
  backupUrls :: "string list"
  pdfUrls :: "string list"
  confidence :: confidence_level

definition serperQuery1 :: "string \<Rightarrow> string \<Rightarrow> string" where
  \<comment> \<open>the template \<open>"${mpn}" "${manufacturer}"\<close>\<close>
  "serperQuery1 mpn manufacturer =
     [CHR 0x22] @ mpn @ [CHR 0x22] @ '' '' @ [CHR 0x22] @ manufacturer @ [CHR 0x22]"

definition serperQuery2 :: "string \<Rightarrow> string" where
  \<comment> \<open>the template \<open>"${mpn}" datasheet pdf\<close>\<close>
  "serperQuery2 mpn = [CHR 0x22] @ mpn @ [CHR 0x22] @ '' datasheet pdf''"

definition isPdfUrl :: "scored \<Rightarrow> bool" where
  "isPdfUrl r = endsWith (toLowerCase (url r)) ''.pdf''"

definition separationConfidence :: "scored list \<Rightarrow> scored \<Rightarrow> confidence_level" where
  \<comment> \<open>the immediately-invoked arrow function that computes \<open>confidence\<close>\<close>
  "separationConfidence scoredList primary =
     (case drop 1 scoredList of
        [] \<Rightarrow> High
      | second # _ \<Rightarrow>
          (let separation = score primary - score second in
           if separation > 0.15 then High
           else if separation > 0.05 then Medium
           else Low))"

text \<open>
  \<open>rankedSearch q\<close> stands for \<open>scoreResults(await runSerperQuery(q), mpn, manufacturer)\<close>:
  the search back end is external, and the ranking squashes with \<open>Math.exp\<close>; its
  result is the list of candidates sorted by descending score, or the error that
  \<open>runSerperQuery\<close> throws on a failed HTTP response.
\<close>

definition discoverProductSources ::
  "(string \<Rightarrow> error + scored list) \<Rightarrow> string \<Rightarrow> string \<Rightarrow> error + DiscoveryResult" where
  "discoverProductSources rankedSearch mpn manufacturer =
     (case rankedSearch (serperQuery1 mpn manufacturer) of
        Inl e \<Rightarrow> Inl e
      | Inr scoredList \<Rightarrow>
          (let backups = (\<lambda>primary.
                 map url (take 3 (filter (\<lambda>r. url r \<noteq> url primary) scoredList)));
               pdfs = map url (filter isPdfUrl scoredList)
           in case scoredList of
                [] \<Rightarrow>
                  (case rankedSearch (serperQuery2 mpn) of
                     Inl e \<Rightarrow> Inl e
                   | Inr pdfScored \<Rightarrow>
                       (let pdfOnly = map url (filter isPdfUrl pdfScored) in
                        Inr \<lparr> primaryProductUrl = None,
                              backupUrls = [],
                              pdfUrls = take 3 pdfOnly,
                              confidence = (if length pdfOnly > 0 then Medium else Low) \<rparr>))
              | primary # _ \<Rightarrow>
                  Inr \<lparr> primaryProductUrl = Some (url primary),
                        backupUrls = backups primary,
                        pdfUrls = take 3 pdfs,
                        confidence = separationConfidence scoredList primary \<rparr>))"

definition ranked :: "scored list \<Rightarrow> bool" where
  \<comment> \<open>what \<open>.sort((a, b) => b.score - a.score)\<close> establishes\<close>
  "ranked xs = sorted_wrt (\<lambda>a b. score b \<le> score a) xs"

section \<open>Crawler (services/crawlService.ts)\<close>

datatype fallback_reason = fetch_failed | invalid_html | non_product | captcha_or_js

record CrawlResult =
  finalUrl :: string
  html :: "string option"
  usedPlaywright :: bool
  contentType :: "string option"
  fallbackReason :: "fallback_reason option"
  crawlConfidence :: "confidence_level option"

text \<open>What \<open>fetch\<close> resolves to; an attempt that throws or times out has no response.\<close>

record http_response =
  resOk :: bool
  resBody :: string
  resUrl :: string
  resContentType :: "string option"

record fetched =
  f_html :: string
  f_finalUrl :: string
  f_contentType :: "string option"

definition isValidHtml :: "string \<Rightarrow> bool" where
  "isValidHtml h =
     (if h = [] then False
      else if length h < 1000 then False
      else if includesStr (toLowerCase h) ''enable javascript'' then False
      else if includesStr (toLowerCase h) ''captcha'' then False
      else True)"

definition tryFetchOnce :: "http_response option \<Rightarrow> fetched option" where
  "tryFetchOnce outcome =
     (case outcome of
        None \<Rightarrow> None
      | Some res \<Rightarrow>
          if resOk res \<and> isValidHtml (resBody res)
          then Some \<lparr> f_html = resBody res, f_finalUrl = resUrl res,
                       f_contentType = resContentType res \<rparr>
          else None)"

definition isHomepageLike :: "string \<Rightarrow> bool" where
  "isHomepageLike h =
     (let lower = toLowerCase h;
          navHeavy = (rxCount (rxLit ''<nav'') lower \<ge> 2
                      \<or> rxCount (rxLit (''class='' @ [CHR 0x22] @ ''nav'')) lower \<ge> 2);
          productGridSignals = (includesStr lower ''featured products''
                                \<or> includesStr lower ''categories''
                                \<or> includesStr lower ''shop by''
                                \<or> includesStr lower ''our products'');
          multipleCards = (rxCount (rxLit ''product-card'') lower \<ge> 3)
      in navHeavy \<and> (productGridSignals \<or> multipleCards))"

definition looksLikeProductPage :: "string \<Rightarrow> bool" where
  "looksLikeProductPage h =
     (if isHomepageLike h then False
      else
        let lower = toLowerCase h;
            hasTitle = (rxTest (rxSeq (rxLit ''<h1'')
                                 (rxSeq (rxMany (\<lambda>c. c \<noteq> CHR ''>'')) (rxLit ''>''))) lower
                        \<or> rxTest (rxLit ''<title>'') lower);
            hasSpecs = (includesStr lower ''specification''
                        \<or> includesStr lower ''technical data''
                        \<or> includesStr lower ''<table''
                        \<or> includesStr lower ''<dl'');
            hasDatasheet = (includesStr lower ''.pdf''
                            \<and> (includesStr lower ''datasheet'' \<or> includesStr lower ''download''))
        in hasTitle \<and> (hasSpecs \<or> hasDatasheet))"

definition mpnLikeToken :: rx where
  \<comment> \<open>\<open>/\b[0-9a-z\-]{6,}\b/\<close>\<close>
  "mpnLikeToken =
     (let cls = (\<lambda>c. isDigit c \<or> isLower c \<or> c = CHR ''-'') in
      rxSeq rxWordB
        (rxSeq (rxChar cls) (rxSeq (rxChar cls) (rxSeq (rxChar cls)
           (rxSeq (rxChar cls) (rxSeq (rxChar cls) (rxSeq (rxChar cls)
              (rxSeq (rxMany cls) rxWordB))))))))"

definition hasUsableProductSignals :: "string \<Rightarrow> bool" where
  "hasUsableProductSignals h =
     (if h = [] then False
      else
        let lower = toLowerCase h;
            textDensityOk = (length h > 8000);
            hasSpecTable = (includesStr lower ''<table'' \<or> includesStr lower ''<dl'');
            hasDatasheet = (includesStr lower ''.pdf''
                            \<and> (includesStr lower ''datasheet'' \<or> includesStr lower ''manual''));
            repeatedMpn = (rxCount mpnLikeToken lower \<ge> 5);
            strongSignal = (hasSpecTable \<or> hasDatasheet \<or> repeatedMpn)
        in textDensityOk \<and> strongSignal)"

text \<open>
  What the headless browser does with the page: \<open>chromium.launch\<close> or \<open>newPage\<close> throws
  (outside the \<open>try\<close>), or \<open>goto\<close>, \<open>content\<close> or \<open>url\<close> throws (inside it), or the page
  renders. \<open>closeThrows\<close> tells whether \<open>browser.close()\<close> in the \<open>finally\<close> block throws.
\<close>

datatype page_outcome = LaunchThrows | NavigationThrows | Rendered string string

record browser =
  pageOutcome :: page_outcome
  closeThrows :: bool

definition crawlWithPlaywright ::
  "browser \<Rightarrow> string \<Rightarrow> fallback_reason option \<Rightarrow> error + CrawlResult" where
  "crawlWithPlaywright b u fallback =
     (case pageOutcome b of
        LaunchThrows \<Rightarrow> Inl BrowserError
      | outcome \<Rightarrow>
          (let result =
             (case outcome of
                Rendered h final \<Rightarrow>
                  if \<not> hasUsableProductSignals h
                  then \<lparr> finalUrl = final, html = Some h, usedPlaywright = True,
                         contentType = Some ''text/html'',
                         fallbackReason = Some non_product,
                         crawlConfidence = Some Low \<rparr>
                  else \<lparr> finalUrl = final, html = Some h, usedPlaywright = True,
                         contentType = Some ''text/html'',
                         fallbackReason = fallback,
                         crawlConfidence =
                           Some (if hasUsableProductSignals h then Medium else Low) \<rparr>
              | _ \<Rightarrow>
                  \<lparr> finalUrl = u, html = None, usedPlaywright = True,
                    contentType = None,
                    fallbackReason =
                      Some (case fallback of Some r \<Rightarrow> r | None \<Rightarrow> captcha_or_js),
                    crawlConfidence = Some Low \<rparr>)
           in if closeThrows b then Inl BrowserError else Inr result))"

text \<open>
  One round of the loop of \<open>crawlPage\<close>: the result that is returned, or the reason that
  is stored in \<open>fallbackReason\<close> before \<open>continue\<close>.
\<close>

definition fetchAttempt :: "http_response option \<Rightarrow> CrawlResult + fallback_reason" where
  "fetchAttempt outcome =
     (case tryFetchOnce outcome of
        None \<Rightarrow> Inr fetch_failed
      | Some tryResult \<Rightarrow>
          if \<not> looksLikeProductPage (f_html tryResult) then Inr non_product
          else if \<not> hasUsableProductSignals (f_html tryResult) then Inr non_product
          else Inl \<lparr> finalUrl = f_finalUrl tryResult, html = Some (f_html tryResult),
                      usedPlaywright = False, contentType = f_contentType tryResult,
                      fallbackReason = None, crawlConfidence = Some High \<rparr>)"

fun fastFetchLoop ::
  "(nat \<Rightarrow> http_response option) \<Rightarrow> nat list \<Rightarrow> fallback_reason option
     \<Rightarrow> CrawlResult + fallback_reason option" where
  "fastFetchLoop net [] fallback = Inr fallback"
| "fastFetchLoop net (attempt # rest) fallback =
     (case fetchAttempt (net attempt) of
        Inl result \<Rightarrow> Inl result
      | Inr reason \<Rightarrow> fastFetchLoop net rest (Some reason))"

text \<open>
  \<open>net attempt\<close> is what \<open>fetch(url)\<close> gives at the attempt of that number (0 or 1).
\<close>

definition crawlPage ::
  "(nat \<Rightarrow> http_response option) \<Rightarrow> browser \<Rightarrow> string \<Rightarrow> error + CrawlResult" where
  "crawlPage net b u =
     (case fastFetchLoop net [0, 1] None of
        Inl result \<Rightarrow> Inr result
      | Inr fallback \<Rightarrow> crawlWithPlaywright b u fallback)"

section \<open>HTML extractor (services/extractService.ts)\<close>

datatype extract_reason = no_html | blocked | non_product | parse_error | low_quality

record datasheet_link =
  url_d :: string
  label :: "string option"

record ExtractResult =
  ok :: bool
  reason :: "extract_reason option"
  qualityScore :: "rat option"
  sourceUrl_er :: string
  displayTitle_er :: "string option"
  canonicalTitle_er :: string
  productTitle :: string
  mpn_er :: string
  manufacturer_er :: "string option"
  specs_er :: "string jsrecord"
  overview_er :: "string option"
  images_er :: "string list"
  datasheets_er :: "datasheet_link list"

text \<open>
  The document that \<open>cheerio.load\<close> builds is modelled by the answers to the selector
  queries of the extractor.
\<close>

record dom =
  metaDescriptionContent :: "string option"  \<comment> \<open>\<open>$('meta[name="description"]').attr("content")\<close>\<close>
  ogDescriptionContent :: "string option"
  ogTitleContent :: "string option"
  twitterTitleContent :: "string option"
  ogImageContent :: "string option"
  h1FirstText :: string  \<comment> \<open>\<open>$("h1").first().text()\<close>\<close>
  titleText :: string  \<comment> \<open>\<open>$("title").text()\<close>\<close>
  scriptTexts :: "string list"  \<comment> \<open>\<open>$("script")\<close>, the text of each\<close>
  jsonLdTexts :: "string list"  \<comment> \<open>\<open>$("script[type='application/ld+json']")\<close>\<close>
  anchors :: "(string \<times> string) list"  \<comment> \<open>\<open>$("a[href]")\<close>: attribute and text\<close>
  imgSrcs :: "string list"  \<comment> \<open>\<open>$("img[src]")\<close>: the attribute\<close>
  tables :: "string list list list"  \<comment> \<open>each table, each \<open>tr\<close>, the text of each \<open>td, th\<close>\<close>
  definitionTerms :: "(string \<times> string) list"  \<comment> \<open>each \<open>dt\<close>: its text and that of \<open>next("dd")\<close>\<close>

text \<open>The library functions the extractor calls; \<open>None\<close> stands for a thrown exception.\<close>

record platform =
  cheerioLoad :: "string \<Rightarrow> dom option"
  jsonParse :: "string \<Rightarrow> json option"
  evalBCData :: "string \<Rightarrow> json option"
    \<comment> \<open>the object literal after \<open>var BCData =\<close>, parsed by \<open>JSON.parse\<close> or evaluated\<close>
  decodeURIComponent :: "string \<Rightarrow> string option"
  newURL :: "string \<Rightarrow> string \<Rightarrow> string option"  \<comment> \<open>\<open>new URL(href, base).toString()\<close>\<close>

definition templateTitle :: "string option \<Rightarrow> string \<Rightarrow> string" where
  \<comment> \<open>\<open>`${manufacturer ?? ""} ${mpn}`.trim()\<close>\<close>
  "templateTitle manufacturer m =
     trim ((case manufacturer of None \<Rightarrow> [] | Some t \<Rightarrow> t) @ '' '' @ m)"

definition fail ::
  "extract_reason \<Rightarrow> string \<Rightarrow> string \<Rightarrow> string option \<Rightarrow> ExtractResult" where
  "fail why src m manufacturer =
     \<lparr> ok = False, reason = Some why, qualityScore = None, sourceUrl_er = src,
       displayTitle_er = None, canonicalTitle_er = templateTitle manufacturer m,
       productTitle = templateTitle manufacturer m, mpn_er = m,
       manufacturer_er = manufacturer, specs_er = [], overview_er = None,
       images_er = [], datasheets_er = [] \<rparr>"

fun collapseWsFrom :: "bool \<Rightarrow> string \<Rightarrow> string" where
  "collapseWsFrom inRun [] = []"
| "collapseWsFrom inRun (c # cs) =
     (if isWhiteSpace c
      then (if inRun then collapseWsFrom True cs else CHR '' '' # collapseWsFrom True cs)
      else c # collapseWsFrom False cs)"

definition collapseWs :: "string \<Rightarrow> string" where
  \<comment> \<open>\<open>s.replace(/\s+/g, " ")\<close>\<close>
  "collapseWs t = collapseWsFrom False t"

definition cleanText :: "string option \<Rightarrow> string option" where
  "cleanText input =
     (case input of
        None \<Rightarrow> None
      | Some t \<Rightarrow>
          if t = [] then None
          else Some (trim (map (\<lambda>c. if c = CHR 0x0A \<or> c = CHR 0x0D \<or> c = CHR 0x09 then CHR '' '' else c)
                             (collapseWs t))))"

definition orElse :: "string option \<Rightarrow> string option \<Rightarrow> string option" where
  \<comment> \<open>\<open>a || b\<close> on values that are a string, \<open>undefined\<close> or \<open>null\<close>\<close>
  "orElse a b = (case a of Some (c # cs) \<Rightarrow> a | _ \<Rightarrow> b)"

definition orNull :: "string option \<Rightarrow> string option" where
  \<comment> \<open>\<open>a || null\<close>\<close>
  "orNull a = (case a of Some (c # cs) \<Rightarrow> a | _ \<Rightarrow> None)"

definition orEmpty :: "string option \<Rightarrow> string" where
  \<comment> \<open>\<open>a || ""\<close>\<close>
  "orEmpty a = (case a of Some t \<Rightarrow> t | None \<Rightarrow> [])"

definition stripHyphensSpaces :: "string \<Rightarrow> string" where
  \<comment> \<open>\<open>s.replace(/[-\s]/g, "")\<close>\<close>
  "stripHyphensSpaces t = filter (\<lambda>c. c \<noteq> CHR ''-'' \<and> \<not> isWhiteSpace c) t"

definition dropTrailingColon :: "string \<Rightarrow> string" where
  \<comment> \<open>\<open>key.replace(/:$/, "")\<close>\<close>
  "dropTrailingColon k = (if k \<noteq> [] \<and> last k = CHR '':'' then butlast k else k)"

definition absoluteUrl :: "platform \<Rightarrow> string \<Rightarrow> string \<Rightarrow> string option" where
  "absoluteUrl pf href base = newURL pf href base"

record scored_link =
  link_url :: string
  link_label :: "string option"
  link_score :: int

fun dedupe :: "scored_link list \<Rightarrow> scored_link list \<Rightarrow> scored_link list" where
  \<comment> \<open>the \<open>Map\<close> of \<open>dedupeAndSort\<close>: one entry per url, in the order of first insertion\<close>
  "dedupe acc [] = acc"
| "dedupe acc (item # items) =
     (case find (\<lambda>e. link_url e = link_url item) acc of
        None \<Rightarrow> dedupe (acc @ [item]) items
      | Some existing \<Rightarrow>
          if link_score item > link_score existing
          then dedupe (map (\<lambda>e. if link_url e = link_url item then item else e) acc) items
          else dedupe acc items)"

definition dedupeAndSort :: "scored_link list \<Rightarrow> scored_link list" where
  \<comment> \<open>\<open>Array.prototype.sort\<close> is stable\<close>
  "dedupeAndSort items = sort_key (\<lambda>e. - link_score e) (dedupe [] items)"

definition datasheetCandidate ::
  "platform \<Rightarrow> string \<Rightarrow> string \<times> string \<Rightarrow> scored_link option" where
  "datasheetCandidate pf baseUrl a =
     (let href = fst a in
      if href = [] then None
      else case absoluteUrl pf href baseUrl of
        None \<Rightarrow> None
      | Some absUrl \<Rightarrow>
          (let text = orEmpty (map_option toLowerCase (cleanText (Some (snd a))));
               lowerHref = toLowerCase absUrl;
               sc = (if endsWith lowerHref ''.pdf'' then 3 else 0)
                  + (if includesStr text ''datasheet'' \<or> includesStr text ''data sheet''
                     then 2 else 0)
                  + (if includesStr text ''spec'' then 2 else 0)
                  + (if includesStr text ''manual'' then 1 else 0)
                  - (if includesStr text ''privacy'' \<or> includesStr text ''terms''
                        \<or> includesStr text ''catalog''
                     then 3 else 0)
           in if sc > 0
              then Some \<lparr> link_url = absUrl, link_label = orNull (cleanText (Some (snd a))),
                           link_score = sc \<rparr>
              else None))"

definition extractDatasheets :: "platform \<Rightarrow> dom \<Rightarrow> string \<Rightarrow> datasheet_link list" where
  "extractDatasheets pf d baseUrl =
     map (\<lambda>e. \<lparr> url_d = link_url e, label = link_label e \<rparr>)
       (take 5 (dedupeAndSort (List.map_filter (datasheetCandidate pf baseUrl) (anchors d))))"

definition imageCandidate :: "platform \<Rightarrow> string \<Rightarrow> string \<Rightarrow> scored_link option" where
  "imageCandidate pf baseUrl src =
     (if src = [] then None
      else case absoluteUrl pf src baseUrl of
        None \<Rightarrow> None
      | Some absUrl \<Rightarrow>
          (let lower = toLowerCase absUrl in
           if includesStr lower ''logo'' \<or> includesStr lower ''icon''
              \<or> includesStr lower ''sprite'' \<or> includesStr lower ''placeholder''
              \<or> includesStr lower ''spinner''
           then None
           else Some \<lparr> link_url = absUrl, link_label = None,
                        link_score = 1
                          + (if includesStr lower ''product'' \<or> includesStr lower ''media''
                             then 2 else 0)
                          + (if endsWith lower ''.jpg'' \<or> endsWith lower ''.png''
                                \<or> endsWith lower ''.webp''
                             then 1 else 0) \<rparr>))"

definition extractImages :: "platform \<Rightarrow> dom \<Rightarrow> string \<Rightarrow> string list" where
  "extractImages pf d baseUrl =
     (let og = (case ogImageContent d of
                  None \<Rightarrow> []
                | Some ogImage \<Rightarrow>
                    if ogImage = [] then []
                    else (case absoluteUrl pf ogImage baseUrl of
                            None \<Rightarrow> []
                          | Some absUrl \<Rightarrow>
                              [\<lparr> link_url = absUrl, link_label = None, link_score = 5 \<rparr>]));
          candidates = og @ List.map_filter (imageCandidate pf baseUrl) (imgSrcs d)
      in map link_url (take 3 (dedupeAndSort candidates)))"

definition specFromPair :: "string jsrecord \<Rightarrow> string \<Rightarrow> string \<Rightarrow> string jsrecord" where
  \<comment> \<open>the common body of the two loops of \<open>extractSpecs\<close>\<close>
  "specFromPair sp keyText valueText =
     (case (cleanText (Some keyText), cleanText (Some valueText)) of
        (Some key, Some val) \<Rightarrow>
          if key \<noteq> [] \<and> val \<noteq> [] \<and> length val < 180
          then recordSet sp (dropTrailingColon key) val
          else sp
      | _ \<Rightarrow> sp)"

definition specsFromRow :: "string jsrecord \<Rightarrow> string list \<Rightarrow> string jsrecord" where
  "specsFromRow sp cells =
     (if length cells < 2 then sp else specFromPair sp (cells ! 0) (cells ! 1))"

definition specsFromTable :: "string jsrecord \<Rightarrow> string list list \<Rightarrow> string jsrecord" where
  "specsFromTable sp rows = (if length rows < 3 then sp else foldl specsFromRow sp rows)"

definition extractSpecs :: "dom \<Rightarrow> string jsrecord" where
  "extractSpecs d =
     foldl (\<lambda>sp dt. specFromPair sp (fst dt) (snd dt))
       (foldl specsFromTable [] (tables d))
       (definitionTerms d)"

definition promoteSpecsFromText :: "string \<Rightarrow> string jsrecord" where
  "promoteSpecsFromText text =
     (let ws = rxMany isWhiteSpace;
          hyphenOrSpace = rxOpt (rxChar (\<lambda>c. c = CHR ''-'' \<or> isWhiteSpace c));
          p1 = (if rxTest (rxSeqs [rxLit ''120'', ws, rxLit ''/'', ws, rxLit ''240'', ws,
                                    rxLitI ''V'']) text
                then recordSet [] ''System Voltage'' ''120/240 V'' else []);
          p2 = (if rxTest
                     (rxAlt (rxSeqs [rxWordB, rxLit ''1'', ws, rxLitI ''PH'', rxWordB])
                       (rxAlt (rxSeqs [rxWordB, rxLit ''1'',
                                       rxChar (\<lambda>c. c = CHR 0xC3 \<or> c = CHR 0xE3), rxNone,
                                       rxWordB])
                          (rxSeqs [rxWordB, rxLitI ''Single'', hyphenOrSpace,
                                   rxLitI ''Phase'', rxWordB]))) text
                then recordSet p1 ''Phase'' ''Single Phase'' else p1);
          p3 = (if rxTest (rxSeqs [rxLit ''200'', ws, rxLitI ''A'', rxOpt (rxLitI ''MP'')]) text
                then recordSet p2 ''Max Service Size'' ''200 A'' else p2);
          p4 = (if rxTest (rxAlt (rxLitI ''downline'')
                             (rxSeqs [rxLitI ''sub'', hyphenOrSpace, rxLitI ''panel''])) text
                then recordSet p3 ''Application'' ''Downline / Sub-panel Protection'' else p3);
          p5 = (if rxTest (rxSeqs [rxLitI ''surge'', rxMany1 isWhiteSpace,
                                    rxLitI ''protection'']) text
                then recordSet p4 ''Product Type'' ''Surge Protection Device'' else p4)
      in p5)"

definition isObject :: "json \<Rightarrow> bool" where
  \<comment> \<open>\<open>v && typeof v === "object"\<close>\<close>
  "isObject v = (case v of JObj _ \<Rightarrow> True | JArr _ \<Rightarrow> True | _ \<Rightarrow> False)"

definition bcDataStep ::
  "platform \<Rightarrow> string option \<times> string option \<Rightarrow> string \<Rightarrow> string option \<times> string option" where
  \<comment> \<open>one script of the \<open>BCData\<close> loop; the state is \<open>(bcSku, bcWeight)\<close>, and
      \<open>weight.formatted\<close> is read at the declared type of \<open>bcWeight\<close>, a string\<close>
  "bcDataStep pf st text =
     (if text = [] \<or> \<not> includesStr text ''var BCData ='' then st
      else case evalBCData pf text of
        None \<Rightarrow> st
      | Some obj \<Rightarrow>
          if \<not> isObject obj then st
          else
            (let attrs = getProp obj ''product_attributes'';
                 bcWeight =
                   (case getOptProp (getOptProp attrs ''weight'') ''formatted'' of
                      Some (JStr w) \<Rightarrow> if w \<noteq> [] \<and> snd st = None then Some w else snd st
                    | _ \<Rightarrow> snd st);
                 bcSku =
                   (case getOptProp attrs ''sku'' of
                      Some (JStr k) \<Rightarrow> if orNull (fst st) = None then Some k else fst st
                    | _ \<Rightarrow> fst st)
             in (bcSku, bcWeight)))"

definition jsonLdItem :: "string option \<Rightarrow> json \<Rightarrow> string option" where
  "jsonLdItem jsonLdDescription item =
     (if isObject item \<and> getProp item ''@type'' = Some (JStr ''Product'')
      then (case getProp item ''description'' of
              Some (JStr t) \<Rightarrow>
                if orNull jsonLdDescription = None then Some t else jsonLdDescription
            | _ \<Rightarrow> jsonLdDescription)
      else jsonLdDescription)"

definition jsonLdStep :: "platform \<Rightarrow> string option \<Rightarrow> string \<Rightarrow> string option" where
  "jsonLdStep pf jsonLdDescription text =
     (if text = [] then jsonLdDescription
      else case jsonParse pf text of
        None \<Rightarrow> jsonLdDescription
      | Some j \<Rightarrow>
          foldl jsonLdItem jsonLdDescription (case j of JArr items \<Rightarrow> items | _ \<Rightarrow> [j]))"

definition qualityOf ::
  "string option \<Rightarrow> string jsrecord \<Rightarrow> string list \<Rightarrow> datasheet_link list \<Rightarrow> string option
     \<Rightarrow> rat" where
  \<comment> \<open>the feature vector and the weighted sum of stage H\<close>
  "qualityOf dispTitle sp imgs sheets ov =
     (let hasTitle = (case dispTitle of Some t \<Rightarrow> if t \<noteq> [] \<and> length t > 15 then 1 else 0
                      | None \<Rightarrow> (0 :: rat));
          hasSpecs = (if length (map fst sp) > 0 then 1 else 0);
          hasImages = (if length imgs > 0 then 1 else 0);
          hasDatasheets = (if length sheets > 0 then 1 else 0);
          hasOverview = (case ov of Some t \<Rightarrow> if t \<noteq> [] \<and> length t > 40 then 1 else 0
                         | None \<Rightarrow> 0)
      in 0.30 * hasSpecs + 0.25 * hasDatasheets + 0.20 * hasImages + 0.15 * hasTitle
         + 0.10 * hasOverview)"

definition guardrails :: "string \<Rightarrow> string \<Rightarrow> string \<Rightarrow> extract_reason option" where
  \<comment> \<open>stage A, for an html that is not empty: the reason of the failure, if any\<close>
  "guardrails h src m =
     (let lowerHtml = toLowerCase h;
          looksLikeChallenge =
            (includesStr lowerHtml ''__cf_chl'' \<or> includesStr lowerHtml ''cf-challenge''
             \<or> includesStr lowerHtml ''attention required''
             \<or> includesStr lowerHtml ''verify you are human'');
          normalizedMpn = toLowerCase (stripHyphensSpaces m);
          normalizedHtml = stripHyphensSpaces lowerHtml;
          looksLikeDistributor =
            (includesStr src ''/product'' \<or> includesStr src ''/products''
             \<or> includesStr src ''mc-mc.com'' \<or> includesStr src ''dosupply.com''
             \<or> includesStr src ''radwell'' \<or> includesStr src ''gerrie''
             \<or> includesStr src ''mro'')
      in if length h < 12000 \<and> looksLikeChallenge then Some blocked
         else if \<not> includesStr normalizedHtml normalizedMpn \<and> \<not> looksLikeDistributor
         then Some non_product
         else None)"

definition extractFromDom ::
  "platform \<Rightarrow> dom \<Rightarrow> string \<Rightarrow> string \<Rightarrow> string option \<Rightarrow> ExtractResult" where
  \<comment> \<open>stages B to H, on the loaded document\<close>
  "extractFromDom pf d src m manuf =
     (let normalizedMpn = toLowerCase (stripHyphensSpaces m);
          metaDescription = cleanText (metaDescriptionContent d);
          ogDescription = cleanText (ogDescriptionContent d);
          bc = foldl (bcDataStep pf) (None, None) (scriptTexts d);
          bcSku = fst bc;
          bcWeight = snd bc;
          jsonLdDescription = foldl (jsonLdStep pf) None (jsonLdTexts d);
          dispTitle =
            orNull (cleanText
              (orElse (orElse (orElse (ogTitleContent d) (twitterTitleContent d))
                         (Some (h1FirstText d)))
                 (Some (titleText d))));
          h1Text = orEmpty (cleanText (Some (h1FirstText d)));
          ogTitle = orEmpty (cleanText (ogTitleContent d));
          docTitle = orEmpty (cleanText (Some (titleText d)));
          candidates = filter (\<lambda>c. c \<noteq> []) [h1Text, ogTitle, docTitle];
          productTitleCandidate =
            (case find (\<lambda>c. includesStr (stripHyphensSpaces (toLowerCase c)) normalizedMpn)
                    candidates of
               Some c \<Rightarrow> c
             | None \<Rightarrow> templateTitle manuf m);
          canonTitle =
            (if productTitleCandidate \<noteq> []
                \<and> includesStr (toLowerCase productTitleCandidate) (toLowerCase m)
             then productTitleCandidate
             else templateTitle manuf m);
          ov0 = orNull (cleanText (metaDescriptionContent d));
          ov = (if ov0 = None \<and> orNull jsonLdDescription \<noteq> None
                then (case decodeURIComponent pf (orEmpty jsonLdDescription) of
                        Some decoded \<Rightarrow> Some decoded
                      | None \<Rightarrow> jsonLdDescription)
                else ov0);
          sheets = extractDatasheets pf d src;
          imgs = extractImages pf d src;
          sp0 = extractSpecs d;
          sp1 = (case bcWeight of
                   Some w \<Rightarrow> if w \<noteq> [] \<and> orNull (map_of sp0 ''Weight'') = None
                             then recordSet sp0 ''Weight'' w else sp0
                 | None \<Rightarrow> sp0);
          sp2 = (case bcSku of
                   Some k \<Rightarrow> if k \<noteq> [] \<and> orNull (map_of sp1 ''SKU'') = None
                             then recordSet sp1 ''SKU'' k else sp1
                 | None \<Rightarrow> sp1);
          promotionText =
            joinWith '' '' (filter (\<lambda>t. t \<noteq> [])
               (map orEmpty [metaDescription, ogDescription]));
          promotedSpecs = promoteSpecsFromText promotionText;
          sp = foldl (\<lambda>acc kv. if orNull (map_of acc (fst kv)) = None
                                 then recordSet acc (fst kv) (snd kv) else acc)
                 sp2 promotedSpecs;
          q = qualityOf dispTitle sp imgs sheets ov
      in if q < 0.30
         then \<lparr> ok = False, reason = Some low_quality,
                qualityScore = Some q, sourceUrl_er = src, displayTitle_er = dispTitle,
                canonicalTitle_er = canonTitle, productTitle = productTitleCandidate,
                mpn_er = m, manufacturer_er = manuf, specs_er = sp, overview_er = ov,
                images_er = imgs, datasheets_er = sheets \<rparr>
         else \<lparr> ok = True, reason = None,
                qualityScore = Some q, sourceUrl_er = src, displayTitle_er = dispTitle,
                canonicalTitle_er = canonTitle, productTitle = productTitleCandidate,
                mpn_er = m, manufacturer_er = manuf, specs_er = sp, overview_er = ov,
                images_er = imgs, datasheets_er = sheets \<rparr>)"

definition extractFromHtml ::
  "platform \<Rightarrow> string option \<Rightarrow> string \<Rightarrow> string \<Rightarrow> string option \<Rightarrow> ExtractResult" where
  "extractFromHtml pf htmlParam src m manuf =
     (case htmlParam of
        None \<Rightarrow> fail no_html src m manuf
      | Some h \<Rightarrow>
          if h = [] then fail no_html src m manuf
          else case guardrails h src m of
            Some why \<Rightarrow> fail why src m manuf
          | None \<Rightarrow>
              (case cheerioLoad pf h of
                 None \<Rightarrow> fail parse_error src m manuf
               | Some d \<Rightarrow> extractFromDom pf d src m manuf))"

section \<open>Normalizer (services/normalizeProduct.ts)\<close>

datatype source_type = oem | distributor | pdf | unknown | datasheet

record verbatim_in =
  heading :: "string option"
  text_v :: string
  source_v :: "string option"

record image_in =
  url_i :: string
  alt :: "string option"

record ExtractedProduct =
  mpn_ep :: string
  manufacturer_ep :: string
  sourceUrl_ep :: string
  sourceType :: source_type
  confidence_ep :: rat
  canonicalTitle_ep :: "string option"
  displayTitle_ep :: "string option"
  specs_ep :: "string jsrecord"
  verbatimSections_ep :: "verbatim_in list option"
  images_ep :: "image_in list option"
  datasheets_ep :: "datasheet_link list option"
  rawDatasheet :: "json option"

record spec_entry =
  value_s :: string
  sources :: "string list"
  confidence_s :: rat

record verbatim_out =
  heading_n :: "string option"
  text_n :: string
  source_n :: string
  confidence_n :: rat

record image_out =
  url_io :: string
  source_io :: string
  confidence_io :: rat

record datasheet_out =
  url_do :: string
  label_do :: "string option"
  source_do :: string

record NormalizedProduct =
  mpn_np :: string
  manufacturer_np :: string
  canonicalTitle_np :: string
  displayTitle_np :: string
  specs_np :: "spec_entry jsrecord"
  verbatimSections_np :: "verbatim_out list"
  images_np :: "image_out list"
  datasheets_np :: "datasheet_out list"
  overallConfidence :: rat

text \<open>
  The products are objects that \<open>normalizeProducts\<close> mutates in place. The heap holds
  the objects, an address is an index into it, and the argument \<open>products\<close> is a list of
  addresses; the function returns the heap it leaves behind together with its result.
\<close>

type_synonym heap = "ExtractedProduct list"

fun capitalizeFrom :: "bool \<Rightarrow> string \<Rightarrow> string" where
  "capitalizeFrom prevWord [] = []"
| "capitalizeFrom prevWord (c # cs) =
     (if isWordChar c \<and> \<not> prevWord then toUpperChar c else c)
     # capitalizeFrom (isWordChar c) cs"

definition specKeyOf :: "string \<Rightarrow> string" where
  \<comment> \<open>\<open>key.replace(/_raw$/, "").replace(/_/g, " ").replace(/\b\w/g, c => c.toUpperCase())\<close>\<close>
  "specKeyOf key =
     capitalizeFrom False
       (map (\<lambda>c. if c = CHR ''_'' then CHR '' '' else c)
          (if endsWith key ''_raw'' then take (length key - 4) key else key))"

definition groupSpecs :: "string jsrecord \<Rightarrow> json option \<Rightarrow> string jsrecord" where
  \<comment> \<open>one of the three blocks \<open>if (raw.group) { for (const [key, val] of ...) ... }\<close>\<close>
  "groupSpecs sp grp =
     (case grp of
        None \<Rightarrow> sp
      | Some g \<Rightarrow>
          if \<not> truthy g then sp
          else foldl (\<lambda>acc kv. case snd kv of
                                  JStr val \<Rightarrow>
                                    if trim val \<noteq> []
                                    then recordSet acc (specKeyOf (fst kv)) (trim val)
                                    else acc
                                | _ \<Rightarrow> acc)
                 sp (objectEntries g))"

definition stringAnd :: "json option \<Rightarrow> string" where
  \<comment> \<open>\<open>typeof v === "string" && v\<close>; its value \<open>false\<close> is represented by the empty
      string, which every use in the source treats like \<open>false\<close>\<close>
  "stringAnd v = (case v of Some (JStr t) \<Rightarrow> t | _ \<Rightarrow> [])"

definition firstTruthy :: "string list \<Rightarrow> string" where
  \<comment> \<open>\<open>a || b || ... || z\<close> on strings\<close>
  "firstTruthy xs = (case filter (\<lambda>t. t \<noteq> []) xs of [] \<Rightarrow> [] | t # _ \<Rightarrow> t)"

definition elementString :: "json \<Rightarrow> string" where
  \<comment> \<open>what \<open>Array.prototype.join\<close> makes of an element\<close>
  "elementString x = (case x of JNull \<Rightarrow> [] | _ \<Rightarrow> jsString x)"

definition overviewTextOf :: "json \<Rightarrow> string" where
  "overviewTextOf raw =
     (let ov = getProp raw ''overview'' in
      firstTruthy
        [stringAnd (getProp raw ''marketing_overview''),
         stringAnd (getOptProp ov ''headline_raw''),
         (case getOptProp ov ''marketing_text_raw'' of
            Some (JArr xs) \<Rightarrow> joinWith '' '' (map elementString xs)
          | _ \<Rightarrow> []),
         (case getOptProp ov ''datasheet_title_raw'' of Some (JStr t) \<Rightarrow> t | _ \<Rightarrow> [])])"

definition systemDescOf :: "json \<Rightarrow> string" where
  "systemDescOf raw =
     (let ov = getProp raw ''overview'' in
      firstTruthy
        [stringAnd (getProp raw ''system_description''),
         stringAnd (getOptProp ov ''system_description_raw''),
         stringAnd (getOptProp ov ''system_description''),
         stringAnd (getOptProp ov ''system_description_text_raw'')])"

definition bulletsOf :: "json \<Rightarrow> json list" where
  "bulletsOf raw =
     (let kf = getProp raw ''key_features'' in
      case kf of
        Some (JArr xs) \<Rightarrow> xs
      | _ \<Rightarrow>
        (case getOptProp kf ''raw_bullets'' of
           Some (JArr xs) \<Rightarrow> xs
         | _ \<Rightarrow>
           (case getOptProp kf ''bullets'' of
              Some (JArr xs) \<Rightarrow> xs
            | _ \<Rightarrow>
              (case getOptProp kf ''items'' of
                 Some (JArr xs) \<Rightarrow> xs
               | _ \<Rightarrow>
                 (case getOptProp kf ''raw'' of
                    Some (JArr xs) \<Rightarrow> xs
                  | _ \<Rightarrow> [])))))"

definition preprocessDatasheet :: "ExtractedProduct \<Rightarrow> ExtractedProduct" where
  \<comment> \<open>the body of the loop "Preprocess datasheet products"; \<open>confidence\<close> is a number by
      its declared type, so the default for an undefined one does not apply\<close>
  "preprocessDatasheet p =
     (case rawDatasheet p of
        None \<Rightarrow> p
      | Some raw \<Rightarrow>
          if \<not> (sourceType p = datasheet \<and> truthy raw) then p
          else
            (let sp = groupSpecs (groupSpecs (groupSpecs (specs_ep p)
                          (getProp raw ''electrical_specs''))
                          (getProp raw ''mechanical_specs''))
                          (getProp raw ''safety_and_compliance'');
                 vs0 = (case verbatimSections_ep p of None \<Rightarrow> [] | Some vs \<Rightarrow> vs);
                 overviewText = overviewTextOf raw;
                 vs1 = (if trim overviewText \<noteq> []
                        then vs0 @ [\<lparr> heading = Some ''Overview'', text_v = trim overviewText,
                                      source_v = Some (sourceUrl_ep p) \<rparr>]
                        else vs0);
                 systemDesc = systemDescOf raw;
                 vs2 = (if trim systemDesc \<noteq> []
                        then vs1 @ [\<lparr> heading = Some ''System Description'',
                                      text_v = trim systemDesc,
                                      source_v = Some (sourceUrl_ep p) \<rparr>]
                        else vs1);
                 vs3 = vs2 @ List.map_filter
                         (\<lambda>bullet. case bullet of
                                      JStr t \<Rightarrow>
                                        if trim t \<noteq> []
                                        then Some \<lparr> heading = Some ''Key Feature'',
                                                     text_v = trim t,
                                                     source_v = Some (sourceUrl_ep p) \<rparr>
                                        else None
                                    | _ \<Rightarrow> None)
                         (bulletsOf raw)
             in p\<lparr> specs_ep := sp, verbatimSections_ep := Some vs3 \<rparr>))"

definition nativeFunctionString :: "string \<Rightarrow> string" where
  \<comment> \<open>\<open>String(f)\<close> for a built-in function of that name\<close>
  "nativeFunctionString name = ''function '' @ name @ ''() { [native code] }''"

definition canonicalKeyOf :: "string \<Rightarrow> string" where
  \<comment> \<open>\<open>SPEC_ALIASES[key] ?? key\<close>, used as a property key. \<open>SPEC_ALIASES\<close> is an object
      literal, so a key that names a property of \<open>Object.prototype\<close> finds the inherited
      value, which as a property key is its string\<close>
  "canonicalKeyOf key =
     (if key \<in> {''System Voltage'', ''Voltage'', ''Nominal Ac Line Voltage Vrms'',
                  ''Nominal Ac Line Voltage (Vrms)'', ''Nominal AC Line Voltage Vrms''}
      then ''Nominal AC Line Voltage (VRMS)''
      else if key = ''constructor'' then nativeFunctionString ''Object''
      else if key = ''__proto__'' then ''[object Object]''
      else if key \<in> set objectPrototypeKeys then nativeFunctionString key
      else key)"

definition mergeSpec ::
  "ExtractedProduct \<Rightarrow> spec_entry jsrecord \<Rightarrow> string \<times> string \<Rightarrow> spec_entry jsrecord" where
  \<comment> \<open>the body of the inner loop of the spec merge\<close>
  "mergeSpec p mergedSpecs kv =
     (if snd kv = [] then mergedSpecs
      else
        let canonicalKey = canonicalKeyOf (fst kv) in
        case map_of mergedSpecs canonicalKey of
          None \<Rightarrow>
            recordSet mergedSpecs canonicalKey
              \<lparr> value_s = snd kv, sources = [sourceUrl_ep p], confidence_s = confidence_ep p \<rparr>
        | Some e \<Rightarrow>
            (let e1 = (if confidence_ep p > confidence_s e
                       then e\<lparr> value_s := snd kv, confidence_s := confidence_ep p \<rparr>
                       else e);
                 e2 = (if sourceUrl_ep p \<notin> set (sources e1)
                       then e1\<lparr> sources := sources e1 @ [sourceUrl_ep p] \<rparr>
                       else e1)
             in recordSet mergedSpecs canonicalKey e2))"

definition mergeProduct :: "spec_entry jsrecord \<Rightarrow> ExtractedProduct \<Rightarrow> spec_entry jsrecord" where
  "mergeProduct mergedSpecs p = foldl (mergeSpec p) mergedSpecs (specs_ep p)"

definition truthyTitle :: "string option \<Rightarrow> bool" where
  "truthyTitle t = (orNull t \<noteq> None)"

definition datasheetProduct :: "ExtractedProduct \<Rightarrow> json \<Rightarrow> ExtractedProduct" where
  \<comment> \<open>the product that wraps the datasheet JSON found on disk\<close>
  "datasheetProduct baseProduct raw =
     \<lparr> mpn_ep = mpn_ep baseProduct, manufacturer_ep = manufacturer_ep baseProduct,
       sourceUrl_ep = ''datasheet:'' @ mpn_ep baseProduct, sourceType = datasheet,
       confidence_ep = 0.95, canonicalTitle_ep = None, displayTitle_ep = None,
       specs_ep = [], verbatimSections_ep = None, images_ep = None, datasheets_ep = None,
       rawDatasheet = Some raw \<rparr>"

text \<open>
  \<open>disk m\<close> is the file \<open>data/surgepure/products/<m>.json\<close>: \<open>None\<close> when it does not
  exist, \<open>Some None\<close> when reading or parsing it throws, \<open>Some (Some raw)\<close> when it parses.
  \<open>prepare\<close> is the first half of \<open>normalizeProducts\<close>, up to the end of the
  preprocessing loop: it yields the heap and the list \<open>products\<close> as they are from then on.
\<close>

definition prepare ::
  "(string \<Rightarrow> json option option) \<Rightarrow> heap \<Rightarrow> nat list \<Rightarrow> error + (heap \<times> nat list)" where
  "prepare disk hp products =
     (if products = [] then Inl EmptyProductList
      else
        let baseProduct = hp ! hd products;
            mpnForLookup = mpn_ep baseProduct;
            injected =
              (if \<not> list_ex (\<lambda>a. sourceType (hp ! a) = datasheet) products
                  \<and> disk mpnForLookup \<noteq> None
               then (case disk mpnForLookup of
                       Some (Some raw) \<Rightarrow>
                         Inr (hp @ [datasheetProduct baseProduct raw], length hp # products)
                     | _ \<Rightarrow> Inl DatasheetLoadFailed)
               else Inr (hp, products))
        in case injected of
             Inl e \<Rightarrow> Inl e
           | Inr (hp1, products1) \<Rightarrow>
               Inr (foldl (\<lambda>h a. h[a := preprocessDatasheet (h ! a)]) hp1 products1,
                    products1))"

definition normalizeProducts ::
  "(string \<Rightarrow> json option option) \<Rightarrow> heap \<Rightarrow> nat list \<Rightarrow> string option
     \<Rightarrow> error + (NormalizedProduct \<times> heap)" where
  "normalizeProducts disk hp0 products0 canonicalMpn =
     (case prepare disk hp0 products0 of
        Inl e \<Rightarrow> Inl e
      | Inr (hp, products) \<Rightarrow>
          (let ps = map (\<lambda>a. hp ! a) products;
               base = hd ps;
               effectiveMpn = (case canonicalMpn of Some c \<Rightarrow> c | None \<Rightarrow> mpn_ep base);
               manuf = manufacturer_ep base;
               isRAVariant = endsWith effectiveMpn ''RA'';
               canonTitle =
                 (case find (\<lambda>p. sourceType p = oem \<and> truthyTitle (canonicalTitle_ep p)) ps of
                    Some p \<Rightarrow> orEmpty (canonicalTitle_ep p)
                  | None \<Rightarrow>
                      (case find (\<lambda>p. truthyTitle (canonicalTitle_ep p)) ps of
                         Some p \<Rightarrow> orEmpty (canonicalTitle_ep p)
                       | None \<Rightarrow> manuf @ '' '' @ effectiveMpn));
               dispTitle =
                 (case find (\<lambda>p. sourceType p = oem \<and> truthyTitle (displayTitle_ep p)) ps of
                    Some p \<Rightarrow> orEmpty (displayTitle_ep p)
                  | None \<Rightarrow>
                      (case find (\<lambda>p. truthyTitle (displayTitle_ep p)) ps of
                         Some p \<Rightarrow> orEmpty (displayTitle_ep p)
                       | None \<Rightarrow> canonTitle));
               mergedSpecs = foldl mergeProduct [] ps;
               verbatims = concat (map (\<lambda>p.
                   map (\<lambda>v. \<lparr> heading_n = heading v, text_n = text_v v,
                                source_n = sourceUrl_ep p, confidence_n = confidence_ep p \<rparr>)
                     (case verbatimSections_ep p of None \<Rightarrow> [] | Some vs \<Rightarrow> vs)) ps);
               imgs = concat (map (\<lambda>p.
                   map (\<lambda>img. \<lparr> url_io = url_i img, source_io = sourceUrl_ep p,
                                  confidence_io = confidence_ep p \<rparr>)
                     (case images_ep p of None \<Rightarrow> [] | Some is \<Rightarrow> is)) ps);
               sheets = concat (map (\<lambda>p.
                   map (\<lambda>d. \<lparr> url_do = url_d d, label_do = label d,
                                source_do = sourceUrl_ep p \<rparr>)
                     (case datasheets_ep p of None \<Rightarrow> [] | Some ds \<Rightarrow> ds)) ps);
               mergedSpecsRA =
                 (if isRAVariant
                  then recordSet mergedSpecs ''Remote Alarm''
                         \<lparr> value_s = ''Yes'', sources = [''variant:RA''], confidence_s = 0.95 \<rparr>
                  else mergedSpecs);
               verbatimsRA =
                 (if isRAVariant
                  then verbatims @
                         [\<lparr> heading_n = Some ''Variant'',
                            text_n = ''Includes remote alarm for system monitoring.'',
                            source_n = ''variant:RA'', confidence_n = 0.95 \<rparr>]
                  else verbatims);
               overall = foldl (\<lambda>total p. total + confidence_ep p) 0 ps / of_nat (length ps)
           in Inr (\<lparr> mpn_np = effectiveMpn, manufacturer_np = manuf,
                       canonicalTitle_np = canonTitle, displayTitle_np = dispTitle,
                       specs_np = mergedSpecsRA, verbatimSections_np = verbatimsRA,
                       images_np = imgs, datasheets_np = sheets,
                       overallConfidence = overall \<rparr>,
                    hp)))"

subsection \<open>What the merge is measured against\<close>

text \<open>
  A product contributes the value \<open>v\<close> to the key \<open>k\<close> when one of its specs has that
  value, not empty, under a key whose canonical form is \<open>k\<close>. The remaining definitions
  of this subsection state the invariant of the merge loop: \<open>contributions\<close> lists the
  pairs the loop visits, in its order.
\<close>

definition contributes :: "ExtractedProduct \<Rightarrow> string \<Rightarrow> string \<Rightarrow> bool" where
  "contributes p k v =
     list_ex (\<lambda>kv. snd kv = v \<and> snd kv \<noteq> [] \<and> canonicalKeyOf (fst kv) = k) (specs_ep p)"

definition contributors :: "ExtractedProduct list \<Rightarrow> string \<Rightarrow> ExtractedProduct list" where
  "contributors ps k =
     filter (\<lambda>p. list_ex (\<lambda>kv. snd kv \<noteq> [] \<and> canonicalKeyOf (fst kv) = k) (specs_ep p)) ps"

definition contributions ::
  "ExtractedProduct list \<Rightarrow> (ExtractedProduct \<times> string \<times> string) list" where
  "contributions ps = concat (map (\<lambda>p. map (Pair p) (specs_ep p)) ps)"

definition relevant ::
  "(ExtractedProduct \<times> string \<times> string) list \<Rightarrow> string
     \<Rightarrow> (ExtractedProduct \<times> string \<times> string) list" where
  "relevant cs k = filter (\<lambda>c. snd (snd c) \<noteq> [] \<and> canonicalKeyOf (fst (snd c)) = k) cs"

definition mergeStep ::
  "spec_entry jsrecord \<Rightarrow> ExtractedProduct \<times> string \<times> string \<Rightarrow> spec_entry jsrecord" where
  "mergeStep m c = mergeSpec (fst c) m (snd c)"

definition entryOk :: "(ExtractedProduct \<times> string \<times> string) list \<Rightarrow> spec_entry \<Rightarrow> bool" where
  "entryOk rs e =
     (rs \<noteq> []
      \<and> confidence_s e = Max (set (map (\<lambda>c. confidence_ep (fst c)) rs))
      \<and> (\<exists>c \<in> set rs. value_s e = snd (snd c) \<and> confidence_ep (fst c) = confidence_s e)
      \<and> set (sources e) = set (map (\<lambda>c. sourceUrl_ep (fst c)) rs))"

definition mergeInv ::
  "spec_entry jsrecord \<Rightarrow> (ExtractedProduct \<times> string \<times> string) list \<Rightarrow> bool" where
  "mergeInv m cs =
     (\<forall>k. case map_of m k of None \<Rightarrow> relevant cs k = [] | Some e \<Rightarrow> entryOk (relevant cs k) e)"

section \<open>Synthesizer (services/buildSynthesisInput.ts, services/synthesizeService.ts)\<close>

record SynthesisInput =
  mpn_si :: string
  manufacturer_si :: string
  canonicalTitle_si :: string
  specs_si :: "string jsrecord"
  images_si :: "string list"
  datasheets_si :: "datasheet_link list"
  notes_si :: "string list option"  \<comment> \<open>the field \<open>notes\<close>\<close>
  verbatimDescriptors :: "string list"

record SynthesisOutput =
  canonicalTitle_so :: string
  displayTitle_so :: "string option"
  keyFeatures :: "string list"
  overview_so :: string
  shortDescription :: string
  longDescription :: string
  bulletHighlights :: "string list"
  seoDescription :: string
  disclaimers :: "string list"
  confidence_so :: "rat option"  \<comment> \<open>the field \<open>_confidence\<close>\<close>


fun scanObject :: "int \<Rightarrow> bool \<Rightarrow> bool \<Rightarrow> nat \<Rightarrow> string \<Rightarrow> nat option" where
  \<comment> \<open>the balanced-brace loop of \<open>extractJson\<close>, run on \<open>cleaned.slice(start)\<close>: the length
      of the candidate, when the loop reaches one (\<open>i\<close> counts from \<open>start\<close>)\<close>
  "scanObject depth inString escape i [] = None"
| "scanObject depth inString escape i (ch # rest) =
     (if inString then
        (if escape then scanObject depth True False (i + 1) rest
         else if ch = CHR 0x5C then scanObject depth True True (i + 1) rest
         else if ch = CHR 0x22 then scanObject depth False escape (i + 1) rest
         else scanObject depth True escape (i + 1) rest)
      else if ch = CHR 0x22 then scanObject depth True escape (i + 1) rest
      else
        (let depth' = (if ch = CHR ''{'' then depth + 1 else depth);
             depth'' = (if ch = CHR ''}'' then depth' - 1 else depth')
         in if depth'' = 0 \<and> i > 0 then Some (i + 1)
            else scanObject depth'' False escape (i + 1) rest))"

definition sanitizeBareWords :: "string \<Rightarrow> string" where
  \<comment> \<open>\<open>candidate.replace(/,\s*([a-zA-Z_][a-zA-Z0-9_]*)\s*(?=[,\]])/g, "")\<close>\<close>
  "sanitizeBareWords candidate =
     rxReplace
       (rxSeqs [rxLit '','', rxMany isWhiteSpace,
                rxChar (\<lambda>c. isLower c \<or> isUpper c \<or> c = CHR ''_''),
                rxMany isWordChar, rxMany isWhiteSpace,
                rxAhead (rxChar (\<lambda>c. c = CHR '','' \<or> c = CHR '']''))])
       (\<lambda>m. []) candidate"

definition extractJson :: "(string \<Rightarrow> json option) \<Rightarrow> string \<Rightarrow> error + json" where
  \<comment> \<open>\<open>parse\<close> is \<open>JSON.parse\<close>, \<open>None\<close> when it throws. The byte order mark that
      \<open>replace(/^\uFEFF/, "")\<close> would drop is white space, which \<open>trim\<close> has removed\<close>
  "extractJson parse text =
     (let raw = trim text in
      if raw = [] then Inl SynthesisParseFailed
      else
        let cleaned = trim raw;
            fenced =
              (if startsWith cleaned ''```'' \<and> length (splitOn (CHR 0x0A) cleaned) \<ge> 3
               then parse (trim (joinWith [CHR 0x0A]
                                   (butlast (tl (splitOn (CHR 0x0A) cleaned)))))
               else None)
        in case fenced of
             Some v \<Rightarrow> Inr v
           | None \<Rightarrow>
               if CHR ''{'' \<notin> set cleaned then Inl SynthesisParseFailed
               else
                 (let fromStart = dropWhile (\<lambda>c. c \<noteq> CHR ''{'') cleaned in
                  case scanObject 0 False False 0 fromStart of
                    None \<Rightarrow> Inl SynthesisParseFailed
                  | Some n \<Rightarrow>
                      (let candidate = trim (take n fromStart) in
                       case parse candidate of
                         Some v \<Rightarrow> Inr v
                       | None \<Rightarrow>
                           (case parse (sanitizeBareWords candidate) of
                              Some v \<Rightarrow> Inr v
                            | None \<Rightarrow> Inl SynthesisParseFailed))))"

definition stringOfField :: "json option \<Rightarrow> string" where
  \<comment> \<open>\<open>String(v ?? "").trim()\<close>\<close>
  "stringOfField v =
     trim (case v of None \<Rightarrow> [] | Some JNull \<Rightarrow> [] | Some x \<Rightarrow> jsString x)"

definition stringsOfField :: "json option \<Rightarrow> string list" where
  \<comment> \<open>\<open>Array.isArray(v) ? v.map(s => String(s).trim()).filter(Boolean) : []\<close>\<close>
  "stringsOfField v =
     (case v of
        Some (JArr xs) \<Rightarrow> filter (\<lambda>t. t \<noteq> []) (map (\<lambda>x. trim (jsString x)) xs)
      | _ \<Rightarrow> [])"

definition dropLabel :: "string \<Rightarrow> string" where
  \<comment> \<open>\<open>f.replace(/^[^:]+:\s*/, "")\<close>\<close>
  "dropLabel f =
     (let label = takeWhile (\<lambda>c. c \<noteq> CHR '':'') f;
          rest = dropWhile (\<lambda>c. c \<noteq> CHR '':'') f
      in if label \<noteq> [] \<and> rest \<noteq> [] then dropWhile isWhiteSpace (tl rest) else f)"

definition normalizeSynthesisOutput :: "json \<Rightarrow> string \<Rightarrow> error + SynthesisOutput" where
  "normalizeSynthesisOutput out canonTitle =
     (if \<not> isObject out then Inl SynthesisParseFailed
      else
        let keyFeatures0 = stringsOfField (getProp out ''keyFeatures'');
            overview0 = stringOfField (getProp out ''overview'');
            shortDescriptionRaw = stringOfField (getProp out ''shortDescription'');
            longDesc = stringOfField (getProp out ''longDescription'');
            bulletHighlights0 = stringsOfField (getProp out ''bulletHighlights'');
            seo0 = stringOfField (getProp out ''seoDescription'');
            seo = (if length seo0 > 160 then trim (take 160 seo0) else seo0);
            disclaimers0 = stringsOfField (getProp out ''disclaimers'');
            finalKeyFeatures = (if length keyFeatures0 \<noteq> 0 then keyFeatures0
                                else bulletHighlights0);
            finalBulletHighlights = (if length bulletHighlights0 \<noteq> 0 then bulletHighlights0
                                     else keyFeatures0);
            overview1 =
              (if overview0 = [] \<and> length finalKeyFeatures \<ge> 4
               then ''The '' @ canonTitle
                    @ '' is a digital input module designed for industrial automation systems. ''
                    @ ''Based on available specifications, it supports ''
                    @ joinWith '', '' (map dropLabel finalKeyFeatures) @ ''.''
               else overview0);
            shortDesc =
              (if shortDescriptionRaw = [] \<and> length finalKeyFeatures > 0
               then ''The '' @ canonTitle @ '' is a digital input module featuring ''
                    @ joinWith '' and '' (take 2 finalKeyFeatures) @ ''.''
               else shortDescriptionRaw)
        in Inr \<lparr> canonicalTitle_so = canonTitle, displayTitle_so = None,
                  keyFeatures = finalKeyFeatures, overview_so = overview1,
                  shortDescription = shortDesc, longDescription = longDesc,
                  bulletHighlights = finalBulletHighlights, seoDescription = seo,
                  disclaimers = disclaimers0, confidence_so = None \<rparr>)"

definition setAdd :: "string list \<Rightarrow> string \<Rightarrow> string list" where
  \<comment> \<open>\<open>Set.prototype.add\<close>, the set given by its elements in insertion order\<close>
  "setAdd xs x = (if x \<in> set xs then xs else xs @ [x])"

definition validateAgainstInput :: "SynthesisInput \<Rightarrow> SynthesisOutput \<Rightarrow> SynthesisOutput" where
  "validateAgainstInput input output =
     (let output1 =
            (if includesStr (canonicalTitle_so output) ''.com''
                \<or> includesStr (canonicalTitle_so output) ''.net''
             then output\<lparr> canonicalTitle_so := manufacturer_si input @ '' '' @ mpn_si input \<rparr>
             else output);
          inputSpecKeys = set (map fst (specs_si input));
          keyFeaturesChanged = False;
          filteredKeyFeatures = keyFeatures output1;
          anySpecMissing =
            list_ex (\<lambda>val. val = [] \<or> toLowerCase (trim val) = ''not specified'')
              (map snd (specs_si input));
          disclaimersSet = foldl setAdd [] (disclaimers output1);
          disclaimersSet1 =
            (if anySpecMissing \<or> keyFeaturesChanged
             then setAdd disclaimersSet
                    ''Some specifications were not provided and are listed as Not specified.''
             else disclaimersSet);
          disclaimersSet2 =
            setAdd disclaimersSet1
              (''Installation should follow local electrical codes and be performed ''
               @ ''by qualified personnel.'')
      in output1\<lparr> keyFeatures := filteredKeyFeatures, disclaimers := disclaimersSet2 \<rparr>)"

definition featureLabel :: "string \<Rightarrow> string option" where
  \<comment> \<open>\<open>feature.slice(0, feature.indexOf(":")).trim()\<close>, when the feature has a colon\<close>
  "featureLabel feature =
     (if CHR '':'' \<in> set feature then Some (trim (takeWhile (\<lambda>c. c \<noteq> CHR '':'') feature))
      else None)"

definition inSpecs :: "string \<Rightarrow> string jsrecord \<Rightarrow> bool" where
  \<comment> \<open>\<open>label in input.specs\<close>: an own property of the object or one it inherits\<close>
  "inSpecs lbl sp = (lbl \<in> set (map fst sp) \<or> lbl \<in> set objectPrototypeKeys)"

definition computeContentConfidence :: "SynthesisInput \<Rightarrow> SynthesisOutput \<Rightarrow> rat" where
  "computeContentConfidence input output =
     (let totalSpecs = length (map fst (specs_si input)) in
      if totalSpecs = 0 then 0
      else
        let usedSpecsCount =
              foldl (\<lambda>n feature. case featureLabel feature of
                                    None \<Rightarrow> n
                                  | Some lbl \<Rightarrow> if inSpecs lbl (specs_si input) then n + 1 else n)
                (0 :: nat) (keyFeatures output);
            specFraction = of_nat usedSpecsCount / of_nat totalSpecs;
            hasImages = (if length (images_si input) > 0 then 0.1 else 0);
            hasDatasheets = (if length (datasheets_si input) > 0 then 0.1 else 0)
        in min 0.85 (specFraction + hasImages + hasDatasheets))"

text \<open>
  \<open>gemini input\<close> is the text of the model's answer to the prompt built from \<open>input\<close>,
  or the error of the call.
\<close>

definition synthesizeProductContent ::
  "(SynthesisInput \<Rightarrow> error + string) \<Rightarrow> (string \<Rightarrow> json option) \<Rightarrow> SynthesisInput
     \<Rightarrow> error + SynthesisOutput" where
  "synthesizeProductContent gemini parse input =
     (let descriptors = filter (\<lambda>t. t \<noteq> []) (map trim (verbatimDescriptors input));
          resolvedDisplayTitle =
            (if length (canonicalTitle_si input) > 0 then canonicalTitle_si input
             else manufacturer_si input @ '' '' @ mpn_si input)
      in if length (map fst (specs_si input)) = 0
         then Inr \<lparr> canonicalTitle_so = canonicalTitle_si input,
                    displayTitle_so = Some resolvedDisplayTitle,
                    keyFeatures = [], overview_so = [],
                    shortDescription =
                      (if length descriptors > 0
                       then manufacturer_si input @ '' '' @ mpn_si input @ '' ''
                            @ joinWith '' '' descriptors
                       else []),
                    longDescription = [], bulletHighlights = [], seoDescription = [],
                    disclaimers =
                      [''Insufficient verified product data available to generate content.'',
                       ''Installation should follow local electrical codes and be performed ''
                       @ ''by qualified personnel.''],
                    confidence_so = Some 0 \<rparr>
         else case gemini input of
           Inl e \<Rightarrow> Inl e
         | Inr text \<Rightarrow>
             (case extractJson parse text of
                Inl e \<Rightarrow> Inl SynthesisParseFailed
              | Inr parsed \<Rightarrow>
                  (case normalizeSynthesisOutput parsed (canonicalTitle_si input) of
                     Inl e \<Rightarrow> Inl SynthesisParseFailed
                   | Inr normalized0 \<Rightarrow>
                       (let normalized = validateAgainstInput input normalized0;
                            conf = computeContentConfidence input normalized
                        in Inr (normalized\<lparr> canonicalTitle_so := canonicalTitle_si input,
                                            displayTitle_so := Some resolvedDisplayTitle,
                                            confidence_so := Some conf \<rparr>)))))"

section \<open>Pipeline driver (services/runProductPipeline.ts)\<close>

datatype failure_reason = NO_PRODUCT_URLS | CRAWL_FAILED | LOW_EXTRACTION_QUALITY

record failure =
  usable_f :: bool
  confidence_f :: rat
  failureReason :: failure_reason

record confidence_breakdown =
  discovery_cb :: rat
  crawl_cb :: rat
  extraction_cb :: rat
  synthesis_cb :: rat

record spec_row =
  name_r :: string
  value_r :: string

text \<open>The complete result spreads the synthesis output and adds its own fields.\<close>

record FinalResult = SynthesisOutput +
  specTable :: "spec_row list"
  confidenceBreakdown :: confidence_breakdown
  productType :: "string option"
  usable :: bool
  confidence_fr :: rat
  images_fr :: "string list"
  datasheets_fr :: "datasheet_link list"
  sourceUrl_fr :: string

datatype final = Failure failure | Complete FinalResult

record extraction_summary =
  ok_x :: bool
  qualityScore_x :: "rat option"
  specsCount :: "string + nat"
  imagesCount :: nat
  datasheetsCount :: nat
  images_x :: "string list"
  datasheets_x :: "datasheet_link list"
  sourceUrl_x :: string

record pipeline_result =
  mpn_pr :: string
  manufacturer_pr :: string
  discovery :: "DiscoveryResult option"
  crawl :: "CrawlResult option"
  extraction :: "extraction_summary option"
  synthesis :: "SynthesisOutput option"
  final :: "final option"

















section \<open>PDF extractor (services/pdfExtractService.ts)\<close>

subsection \<open>Matches with their groups\<close>

fun rxGroups :: "rx list \<Rightarrow> cursor \<Rightarrow> (string list \<times> cursor) list" where
  \<comment> \<open>the consecutive parts of an expression matched one after the other: every way to
      match them, the preferred one first, with the text each part matched\<close>
  "rxGroups [] cur = [([], cur)]"
| "rxGroups (r # rs) cur =
     concat (map (\<lambda>mid. map (\<lambda>ge. (take (length (snd cur) - length (snd mid)) (snd cur) # fst ge,
                                     snd ge))
                            (rxGroups rs mid))
                 (r cur))"

fun rxExecFrom :: "rx list \<Rightarrow> bool \<Rightarrow> nat \<Rightarrow> string \<Rightarrow> string list list" where
  \<comment> \<open>the successive matches of a global expression whose matches are not empty, as
      \<open>s.match(regex)\<close> and a loop of \<open>regex.exec(s)\<close> find them\<close>
  "rxExecFrom rs w skip [] = []"
| "rxExecFrom rs w skip (c # cs) =
     (if skip > 0 then rxExecFrom rs (isWordChar c) (skip - 1) cs
      else case rxGroups rs (w, c # cs) of
             [] \<Rightarrow> rxExecFrom rs (isWordChar c) 0 cs
           | ge # _ \<Rightarrow>
               fst ge # rxExecFrom rs (isWordChar c) (length cs - length (snd (snd ge))) cs)"

definition rxExecAll :: "rx list \<Rightarrow> string \<Rightarrow> string list list" where
  "rxExecAll rs s = rxExecFrom rs False 0 s"

definition rxMatchAll :: "rx \<Rightarrow> string \<Rightarrow> string list" where
  \<comment> \<open>\<open>s.match(regex) ?? []\<close> for a global expression\<close>
  "rxMatchAll r s = map concat (rxExecAll [r] s)"

definition rxExecAtStart :: "rx list \<Rightarrow> string \<Rightarrow> string list option" where
  \<comment> \<open>\<open>s.match(regex)\<close> for an expression that begins with \<open>^\<close>: the groups\<close>
  "rxExecAtStart rs s = (case rxGroups rs (False, s) of [] \<Rightarrow> None | ge # _ \<Rightarrow> Some (fst ge))"

definition rxReplaceAtStart :: "rx \<Rightarrow> string \<Rightarrow> string \<Rightarrow> string" where
  \<comment> \<open>\<open>s.replace(regex, t)\<close> for an expression that begins with \<open>^\<close> and a replacement
      text without \<open>$\<close>\<close>
  "rxReplaceAtStart r t s = (case r (False, s) of [] \<Rightarrow> s | e # _ \<Rightarrow> t @ snd e)"

fun rxLazyFrom :: "(char \<Rightarrow> bool) \<Rightarrow> bool \<Rightarrow> string \<Rightarrow> cursor list" where
  "rxLazyFrom P w [] = [(w, [])]"
| "rxLazyFrom P w (c # cs) =
     (w, c # cs) # (if P c then rxLazyFrom P (isWordChar c) cs else [])"

definition rxMany1Lazy :: "(char \<Rightarrow> bool) \<Rightarrow> rx" where
  \<comment> \<open>the lazy \<open>+?\<close> of a character class: the shortest run first\<close>
  "rxMany1Lazy P = rxSeq (rxChar P) (\<lambda>cur. rxLazyFrom P (fst cur) (snd cur))"

definition rxDigit :: rx where
  "rxDigit = rxChar isDigit"

definition rxDigits34 :: rx where
  \<comment> \<open>\<open>\d{3,4}\<close>\<close>
  "rxDigits34 = rxSeqs [rxDigit, rxDigit, rxDigit, rxOpt rxDigit]"

definition rxUpper13 :: rx where
  \<comment> \<open>\<open>[A-Z]{1,3}\<close>\<close>
  "rxUpper13 = rxSeq (rxChar isUpper) (rxOpt (rxSeq (rxChar isUpper) (rxOpt (rxChar isUpper))))"

definition rxHyphenOrSpace :: rx where
  \<comment> \<open>\<open>[-\s]\<close>\<close>
  "rxHyphenOrSpace = rxChar (\<lambda>c. c = CHR ''-'' \<or> isWhiteSpace c)"

definition rxAlts :: "rx list \<Rightarrow> rx" where
  "rxAlts rs = foldr rxAlt rs rxNone"

definition rxWholeI :: "string \<Rightarrow> rx" where
  \<comment> \<open>\<open>/^...$/i\<close> for a literal\<close>
  "rxWholeI p = rxSeq (rxLitI p) rxEnd"

subsection \<open>Download and text\<close>

record pdf_response =
  status_pdf :: nat
  bytes_pdf :: string

record PdfRawRow =
  key_row :: string
  raw_row :: string

record gemini_request =
  targetModel_g :: "string option"  \<comment> \<open>\<open>None\<close> is \<open>undefined\<close>\<close>
  models_g :: "string list"
  rawRows_g :: "PdfRawRow list"

record pdf_world =
  pdf_net :: "nat \<Rightarrow> pdf_response option"
    \<comment> \<open>the answer to the n-th \<open>fetch\<close> of the PDF; \<open>None\<close>: it throws\<close>
  pdf_parse :: "string \<Rightarrow> string option option"
    \<comment> \<open>the module \<open>pdf-parse\<close> on a buffer; \<open>None\<close>: it throws, or the module has an
        unexpected shape; \<open>Some None\<close>: an answer without \<open>text\<close>\<close>
  pdf_gemini :: "gemini_request \<Rightarrow> json option"
    \<comment> \<open>\<open>mapWithGemini\<close>: the request to the model and \<open>JSON.parse\<close> of its answer;
        \<open>None\<close>: one of the two throws, or the API key is missing\<close>

definition fetchPdfBuffer :: "(nat \<Rightarrow> pdf_response option) \<Rightarrow> string \<Rightarrow> error + string" where
  \<comment> \<open>a second \<open>fetch\<close> after a status 403; \<open>res.ok\<close> is a status from 200 to 299\<close>
  "fetchPdfBuffer net pdfUrl =
     (case net 0 of
        None \<Rightarrow> Inl PdfFetchFailed
      | Some res0 \<Rightarrow>
          (case (if status_pdf res0 = 403 then net 1 else Some res0) of
             None \<Rightarrow> Inl PdfFetchFailed
           | Some res \<Rightarrow>
               if \<not> (200 \<le> status_pdf res \<and> status_pdf res < 300) then Inl PdfFetchFailed
               else Inr (bytes_pdf res)))"

definition parsePdfText :: "(string \<Rightarrow> string option option) \<Rightarrow> string \<Rightarrow> error + string" where
  \<comment> \<open>\<open>data?.text ?? ""\<close>\<close>
  "parsePdfText pdfParse buffer =
     (case pdfParse buffer of
        None \<Rightarrow> Inl PdfParseFailed
      | Some None \<Rightarrow> Inr []
      | Some (Some t) \<Rightarrow> Inr t)"

definition normalizePdfText :: "string \<Rightarrow> string" where
  \<comment> \<open>the dashes of the first replacement, U+2010 to U+2015 and U+2212, are beyond the
      8-bit range\<close>
  "normalizePdfText text =
     rxReplace (rxSeq (rxChar (\<lambda>c. c = CHR 0x0A)) (rxMany1 (\<lambda>c. c = CHR 0x0A)))
               (\<lambda>m. [CHR 0x0A])
       (rxReplace (rxMany1 (\<lambda>c. c = CHR '' '' \<or> c = CHR 0x09)) (\<lambda>m. '' '')
          (rxReplace (rxChar (\<lambda>c. c = CHR 0xA0)) (\<lambda>m. '' '')
             (rxReplace rxNone (\<lambda>m. ''-'') text)))"

definition rxModel :: rx where
  \<comment> \<open>\<open>M\d-\d{3,4}-\d\<close>\<close>
  "rxModel = rxSeqs [rxLit ''M'', rxDigit, rxLit ''-'', rxDigits34, rxLit ''-'', rxDigit]"

definition repairText :: "string \<Rightarrow> string" where
  \<comment> \<open>the three replacements that \<open>extractFromPdf\<close> and \<open>extractSpecs\<close> both start with:
      \<open>/(Model Number)/gi\<close> by \<open>"$1 "\<close>, \<open>/(M\d-\d{3,4}-\d)(?=M\d-\d{3,4}-\d)/g\<close> by
      \<open>"$1 "\<close>, \<open>/(\d)(M\d-\d{3,4}-\d)/g\<close> by \<open>"$1 $2"\<close>\<close>
  "repairText text =
     rxReplace (rxSeq rxDigit rxModel) (\<lambda>m. hd m # CHR '' '' # tl m)
       (rxReplace (rxSeq rxModel (rxAhead rxModel)) (\<lambda>m. m @ '' '')
          (rxReplace (rxLitI ''Model Number'') (\<lambda>m. m @ '' '') text))"

subsection \<open>Model numbers\<close>

definition hyphensForSpaces :: "string \<Rightarrow> string" where
  \<comment> \<open>\<open>.replace(/\s+/g, "-")\<close>\<close>
  "hyphensForSpaces s = rxReplace (rxMany1 isWhiteSpace) (\<lambda>m. ''-'') s"

definition detectModels :: "string \<Rightarrow> string list" where
  \<comment> \<open>the candidates are a \<open>Set\<close>, given by its elements in insertion order; the third
      replacement of \<open>normalized\<close> is on dashes beyond the 8-bit range\<close>
  "detectModels text =
     (let normalized =
            rxReplace (rxMany1 isWhiteSpace) (\<lambda>m. '' '')
              (rxReplace rxNone (\<lambda>m. ''-'')
                 (rxReplace
                    (rxSeqs [rxDigit, rxLit ''M'', rxDigit, rxOpt rxHyphenOrSpace, rxDigits34,
                             rxOpt rxHyphenOrSpace, rxDigit])
                    (\<lambda>m. hd m # CHR '' '' # tl m)
                    (rxReplace
                       (rxSeqs [rxChar isUpper, rxUpper13, rxOpt rxDigit,
                                rxOpt rxHyphenOrSpace, rxDigits34, rxOpt rxHyphenOrSpace,
                                rxDigit])
                       (\<lambda>m. hd m # CHR '' '' # tl m)
                       (toUpperCase text))));
          hyphenated =
            rxMatchAll
              (rxSeqs [rxWordB, rxUpper13, rxOpt rxDigit, rxLit ''-'', rxDigits34, rxLit ''-'',
                       rxDigit, rxWordB])
              normalized;
          spaced =
            map hyphensForSpaces
              (rxMatchAll
                 (rxSeqs [rxWordB, rxUpper13, rxOpt rxDigit, rxMany1 isWhiteSpace, rxDigits34,
                          rxMany1 isWhiteSpace, rxDigit, rxWordB])
                 normalized);
          headed =
            map (\<lambda>groups. hyphensForSpaces (groups ! 1))
              (rxExecAll
                 [rxSeq (rxAlt (rxSeqs [rxLit ''MODEL'', rxMany1 isWhiteSpace, rxLit ''NUMBER''])
                               (rxLit ''MODEL''))
                        (rxMany1 isWhiteSpace),
                  rxSeqs [rxUpper13, rxOpt rxDigit, rxHyphenOrSpace, rxDigits34,
                          rxHyphenOrSpace, rxDigit]]
                 normalized);
          candidates = foldl setAdd [] (hyphenated @ spaced @ headed)
      in map (rxReplaceAtStart
                (rxSeq (rxMany1 isUpper) (rxAhead (rxSeqs [rxLit ''M'', rxDigit, rxLit ''-''])))
                [])
             candidates)"

subsection \<open>Rows of the spec table\<close>

record spec_scan =
  inSpecTable :: bool
  tableModels :: "string list"
  rawRows_sc :: "PdfRawRow list"
  overviewLines :: "string list"
  sidebarBullets_sc :: "string list"

record spec_props =
  \<comment> \<open>what \<open>extractSpecs\<close> leaves in the properties of the function object\<close>
  rawRows_p :: "PdfRawRow list"
  overviewText_p :: string
  sidebarBullets_p :: "string list"

definition isLetter :: "char \<Rightarrow> bool" where
  "isLetter c = (isUpper c \<or> isLower c)"

definition isKeyChar :: "char \<Rightarrow> bool" where
  \<comment> \<open>the class \<open>[A-Za-z0-9\/\-\s\(\)%]\<close>\<close>
  "isKeyChar c =
     (isLetter c \<or> isDigit c \<or> c = CHR ''/'' \<or> c = CHR ''-'' \<or> isWhiteSpace c
      \<or> c = CHR ''('' \<or> c = CHR '')'' \<or> c = CHR ''%'')"

definition isLineTerminator :: "char \<Rightarrow> bool" where
  \<comment> \<open>what \<open>.\<close> does not match, within the 8-bit range\<close>
  "isLineTerminator c = (c = CHR 0x0A \<or> c = CHR 0x0D)"

definition rowMatch :: "string \<Rightarrow> (string \<times> string) option" where
  \<comment> \<open>\<open>line.match(/^([A-Za-z][A-Za-z0-9\/\-\s\(\)%]+?)\s*(.+)$/)\<close>: the two groups\<close>
  "rowMatch line =
     (case rxExecAtStart
             [rxSeq (rxChar isLetter) (rxMany1Lazy isKeyChar),
              rxMany isWhiteSpace,
              rxSeq (rxMany1 (\<lambda>c. \<not> isLineTerminator c)) rxEnd]
             line of
        Some [g1, ws, g2] \<Rightarrow> Some (g1, g2)
      | _ \<Rightarrow> None)"

definition keyRepairs :: "(rx \<times> string) list" where
  \<comment> \<open>the chain "Repair common PDF-split keys". Two replacement texts of the source hold
      a code unit beyond the 8-bit range, U+201D after \<open>36\<close> and U+03BC before \<open>sec\<close>;
      they are written here as \<open>"\<close> and \<open>u\<close>\<close>
  "keyRepairs =
     [(rxWholeI ''AC Service'', ''AC Service Types''),
      (rxWholeI ''Nomi'', ''Nominal AC Line Voltage (VRMS)''),
      (rxWholeI ''Freq'', ''Frequency Range - USA/Euro Std''),
      (rxWholeI ''Mult'', ''Multi Element ME* Protection Modes''),
      (rxWholeI ''Lead'', ''Leads: 36'' @ [CHR 0x22] @ '' #14 AWG Stranded Copper''),
      (rxLitI ''Max ME*'', ''Max ME* Surge Current Per Mode / Per '' @ [CHR 0xD8] @ '' / kA''),
      (rxWholeI ''Tota'', ''Total Surge Capacity (kA @ 8x20 usec pulse)''),
      (rxLitI ''Max Continuous'', ''Max Continuous Operating Voltage (MCOV)''),
      (rxWholeI ''Warr'', ''Warranty''),
      (rxLitI ''Encl osure Size'', ''Enclosure Size (HxWxD)''),
      (rxLitI ''Encl osure Type'', ''Enclosure Type''),
      (rxLitI ''Over current Protection'', ''Overcurrent Protection''),
      (rxWholeI ''Cert'', ''Certifications''),
      (rxWholeI ''Perf'', ''Performance & Safety Testing Per''),
      (rxWholeI ''Prot'', ''Protection Status Indicators''),
      (rxWholeI ''Ship'', ''Shipping Weight LBS (Approx.)''),
      (rxWholeI ''Enclosure'', ''Enclosure Type''),
      (rxWholeI ''c-ETL-us Listed and Certified to the latest'', ''Certifications''),
      (rxWholeI ''Max Continuous Operating Voltage (MCOV) Operating Voltage (MCOV)'',
       ''Max Continuous Operating Voltage (MCOV)'')]"

definition repairKey :: "string \<Rightarrow> string" where
  "repairKey k = foldl (\<lambda>k rt. rxReplaceAtStart (fst rt) (snd rt) k) k keyRepairs"

definition isSectionTitle :: "string \<Rightarrow> bool" where
  \<comment> \<open>\<open>/^KEY FEATURES/i\<close>, \<open>/^MACH 1 DATA SHEET/i\<close> or \<open>/^FOR IEEE/i\<close>\<close>
  "isSectionTitle line =
     (rxTestAtStart (rxLitI ''KEY FEATURES'') line
      \<or> rxTestAtStart (rxLitI ''MACH 1 DATA SHEET'') line
      \<or> rxTestAtStart (rxLitI ''FOR IEEE'') line)"

definition isCallout :: "string \<Rightarrow> bool" where
  \<comment> \<open>\<open>/SPD|SCCR|kAIC|Type\s*1|Type\s*2|SurgePure/i\<close>\<close>
  "isCallout line =
     rxTest (rxAlts [rxLitI ''SPD'', rxLitI ''SCCR'', rxLitI ''kAIC'',
                     rxSeqs [rxLitI ''Type'', rxMany isWhiteSpace, rxLit ''1''],
                     rxSeqs [rxLitI ''Type'', rxMany isWhiteSpace, rxLit ''2''],
                     rxLitI ''SurgePure''])
            line"

definition isOverviewLine :: "string \<Rightarrow> bool" where
  "isOverviewLine line =
     (length line > 50
      \<and> \<not> rxTestAtStart (rxLitI ''KEY FEATURES'') line
      \<and> \<not> rxTestAtStart (rxLitI ''FOR MORE INFORMATION'') line
      \<and> \<not> rxTestAtStart (rxLitI ''Model Number'') line
      \<and> \<not> rxTest (rxAlt (rxLitI ''Shipping Weight'') (rxLitI ''Certifications'')) line
      \<and> rxTest (rxAlts [rxLitI ''isolates'', rxLitI ''downline'', rxLitI ''upline'',
                         rxLitI ''surge'', rxLitI ''SPD'', rxLitI ''Panels'',
                         rxLitI ''equipment''])
                line)"

definition pushRow :: "spec_scan \<Rightarrow> string \<Rightarrow> string \<Rightarrow> spec_scan" where
  "pushRow st k r = st\<lparr> rawRows_sc := rawRows_sc st @ [\<lparr> key_row = k, raw_row = r \<rparr>] \<rparr>"

definition specLine :: "spec_scan \<Rightarrow> string \<Rightarrow> spec_scan" where
  \<comment> \<open>one turn of the loop over the lines; the counters \<open>acceptedRows\<close> and
      \<open>rejectedRows\<close>, which nothing reads, are left out\<close>
  "specLine st line =
     (if \<not> inSpecTable st \<and> length line > 20 \<and> isCallout line
         \<and> rxTest (rxSeq (rxLit ''!'') rxEnd) line
      then st\<lparr> sidebarBullets_sc := sidebarBullets_sc st @ [line] \<rparr>
      else if rxTestAtStart (rxLitI ''Model Number'') line
      then (let foundModels = rxMatchAll rxModel line in
            if length foundModels > 0
            then st\<lparr> tableModels := foundModels, inSpecTable := True \<rparr>
            else st)
      else
        let st1 = (if \<not> inSpecTable st \<and> isOverviewLine line
                   then st\<lparr> overviewLines := overviewLines st @ [line] \<rparr> else st)
        in if rxTestAtStart (rxSeqs [rxDigits34, rxLit ''/'', rxDigits34]) line
           then pushRow st1 ''VPR Rating UL 1449, 5th Ed L-N/L-L @ 20kA'' line
           else if inSpecTable st1 \<and> length (tableModels st1) > 0
           then
             (if isSectionTitle line then st1\<lparr> inSpecTable := False \<rparr>
              else if isSectionTitle line \<or> rxTestAtStart (rxLitI ''Listed and Certified'') line
              then st1
              else case rowMatch line of
                     None \<Rightarrow> st1
                   | Some (g1, g2) \<Rightarrow>
                       (let key = repairKey
                                    (rxReplace (rxMany1 isWhiteSpace) (\<lambda>m. '' '') (trim g1));
                            raw = trim g2
                        in if rxTestAtStart (rxWholeI ''AC Service Types'') key
                              \<and> startsWith raw ''Types''
                           then pushRow st1 ''AC Service Types''
                                  (trim (rxReplaceAtStart (rxLit ''Types'') [] raw))
                           else pushRow st1 key raw))
           else st1)"

definition extractSpecs_pdf :: "string \<Rightarrow> string list \<Rightarrow> string \<Rightarrow> spec_props" where
  \<comment> \<open>\<open>extractSpecs\<close> of pdfExtractService.ts. The function returns the empty list to its
      caller; its results are the three
      properties it sets on itself. Neither \<open>models\<close> nor \<open>pdfUrl\<close> is read\<close>
  "extractSpecs_pdf text models pdfUrl =
     (let lines = filter (\<lambda>l. l \<noteq> []) (map trim (splitOn (CHR 0x0A) (repairText text)));
          st = foldl specLine
                 \<lparr> inSpecTable = False, tableModels = [], rawRows_sc = [],
                   overviewLines = [], sidebarBullets_sc = [] \<rparr>
                 lines
      in \<lparr> rawRows_p = rawRows_sc st, overviewText_p = joinWith '' '' (overviewLines st),
           sidebarBullets_p = sidebarBullets_sc st \<rparr>)"

subsection \<open>Key features\<close>

record feature_scan =
  inFeatures :: bool
  currentFeature :: string
  features_sc :: "string list"

definition stripBullet :: "string \<Rightarrow> string option" where
  \<comment> \<open>\<open>line.startsWith(bullet)\<close>, and then the line without the bullet and the white
      space after it, trimmed: the bullet, U+2022, is beyond the 8-bit range, and no
      modelled line starts with it\<close>
  "stripBullet line = None"

definition closeFeature :: "feature_scan \<Rightarrow> feature_scan" where
  \<comment> \<open>\<open>if (currentFeature) { features.push(currentFeature.trim()); currentFeature = ""; }\<close>\<close>
  "closeFeature st =
     (if currentFeature st \<noteq> []
      then st\<lparr> features_sc := features_sc st @ [trim (currentFeature st)], currentFeature := [] \<rparr>
      else st)"

definition featureLine :: "feature_scan \<Rightarrow> string \<Rightarrow> feature_scan" where
  "featureLine st raw =
     (let line = trim raw in
      if rxTestAtStart (rxLitI ''KEY FEATURES'') line
      then (closeFeature st)\<lparr> inFeatures := True \<rparr>
      else if rxTestAtStart (rxLitI ''MACH 1 DATA SHEET'') line
              \<or> rxTestAtStart (rxLitI ''Certifications'') line
      then (closeFeature st)\<lparr> inFeatures := False \<rparr>
      else if \<not> inFeatures st then st
      else case stripBullet line of
             Some t \<Rightarrow> (closeFeature st)\<lparr> currentFeature := t \<rparr>
           | None \<Rightarrow>
               if currentFeature st \<noteq> []
                  \<and> (startsWith raw '' '' \<or> startsWith raw [CHR 0x09]
                     \<or> rxTestAtStart (rxChar isLower) line)
               then st\<lparr> currentFeature := currentFeature st @ '' '' @ trim line \<rparr>
               else if currentFeature st \<noteq> []
               then (case stripBullet line of
                       Some t \<Rightarrow> (closeFeature st)\<lparr> currentFeature := t \<rparr>
                     | None \<Rightarrow> closeFeature st)
               else st)"

definition extractFeatures :: "string \<Rightarrow> string list \<Rightarrow> string list" where
  "extractFeatures text models =
     (let st = closeFeature
                 (foldl featureLine \<lparr> inFeatures = False, currentFeature = [], features_sc = [] \<rparr>
                    (splitOn (CHR 0x0A) text))
      in foldl setAdd [] (features_sc st))"

subsection \<open>extractFromPdf\<close>

record PdfSpec =
  model_ps :: "json option"
  key_ps :: string
  value_ps :: json
  source_ps :: string

record PdfExtractionResult =
  detectedModels :: "string list"
  specs_pdf :: "PdfSpec list"
  rawRows :: "PdfRawRow list"
  features :: "string list"
  rawText :: string
  overviewText_pdf :: "json option"
  sidebarBullets_pdf :: "json option"

definition resolveTargetModel :: "string option \<Rightarrow> string list \<Rightarrow> string option" where
  \<comment> \<open>\<open>targetModel && detectedModels.includes(targetModel) ? targetModel : detectedModels[0]\<close>\<close>
  "resolveTargetModel targetModel models =
     (case targetModel of
        Some t \<Rightarrow> if t \<noteq> [] \<and> t \<in> set models then Some t
                  else (case models of [] \<Rightarrow> None | m # _ \<Rightarrow> Some m)
      | None \<Rightarrow> (case models of [] \<Rightarrow> None | m # _ \<Rightarrow> Some m))"

definition extractFromPdf ::
  "pdf_world \<Rightarrow> string \<Rightarrow> string option \<Rightarrow> error + PdfExtractionResult" where
  "extractFromPdf w pdfUrl targetModel =
     (case fetchPdfBuffer (pdf_net w) pdfUrl of
        Inl e \<Rightarrow> Inl e
      | Inr buffer \<Rightarrow>
     (case parsePdfText (pdf_parse w) buffer of
        Inl e \<Rightarrow> Inl e
      | Inr rawText0 \<Rightarrow>
          (let text = normalizePdfText rawText0;
               repairedText = repairText text;
               models = detectModels repairedText;
               props = extractSpecs_pdf text models pdfUrl;
               rows = rawRows_p props
           in if length rows < 18 then Inl (SpecTableIncomplete (length rows))
              else
                let feats = extractFeatures text models;
                    resolvedTargetModel = resolveTargetModel targetModel models
                in case pdf_gemini w
                          \<lparr> targetModel_g = resolvedTargetModel, models_g = models,
                            rawRows_g = rows \<rparr> of
                     None \<Rightarrow> Inl GeminiError
                   | Some geminiResult \<Rightarrow>
                       (case getProp geminiResult ''specs'' of
                          None \<Rightarrow> Inl PropertyOfUndefined
                        | Some JNull \<Rightarrow> Inl PropertyOfUndefined
                        | Some sp \<Rightarrow>
                            Inr \<lparr> detectedModels = models,
                                  specs_pdf =
                                    map (\<lambda>kv. \<lparr> model_ps = getProp geminiResult ''model'',
                                                 key_ps = fst kv,
                                                 value_ps = (case snd kv of
                                                               JNull \<Rightarrow> JStr ''N/A''
                                                             | v \<Rightarrow> v),
                                                 source_ps = pdfUrl \<rparr>)
                                        (objectEntries sp),
                                  rawRows = rows, features = feats, rawText = rawText0,
                                  overviewText_pdf = getProp geminiResult ''overview'',
                                  sidebarBullets_pdf = getProp geminiResult ''highlights'' \<rparr>))))"

section \<open>Concrete inputs\<close>

definition exampleSearch :: "string \<Rightarrow> error + scored list" where
  "exampleSearch q =
     Inr [\<lparr>url = ''https://a.example/products/m1'', score = 0.9\<rparr>,
          \<lparr>url = ''https://b.example/m1.pdf'', score = 0.8\<rparr>]"

definition deadNetwork :: "nat \<Rightarrow> http_response option" where
  \<comment> \<open>every \<open>fetch\<close> throws\<close>
  "deadNetwork attempt = None"

definition throwingBrowser :: browser where
  \<comment> \<open>the browser starts and closes, \<open>page.goto\<close> throws\<close>
  "throwingBrowser = \<lparr> pageOutcome = NavigationThrows, closeThrows = False \<rparr>"

definition specsOnlyHtml :: string where
  "specsOnlyHtml =
     ''<table><tr><td>Phase</td><td>1</td></tr><tr><td>Frequency</td><td>60 Hz</td></tr>''
     @ ''<tr><td>Model</td><td>M1-1120-3</td></tr></table>''"

definition specsOnlyDom :: dom where
  \<comment> \<open>the document of \<open>specsOnlyHtml\<close>: one table of three rows, nothing else\<close>
  "specsOnlyDom =
     \<lparr> metaDescriptionContent = None, ogDescriptionContent = None, ogTitleContent = None,
       twitterTitleContent = None, ogImageContent = None, h1FirstText = [], titleText = [],
       scriptTexts = [], jsonLdTexts = [], anchors = [], imgSrcs = [],
       tables = [[[''Phase'', ''1''], [''Frequency'', ''60 Hz''], [''Model'', ''M1-1120-3'']]],
       definitionTerms = [] \<rparr>"

definition withDatasheetHtml :: string where
  "withDatasheetHtml =
     specsOnlyHtml @ ''<a href='' @ [CHR 0x22] @ ''https://example.com/m1.pdf''
     @ [CHR 0x22] @ ''>Datasheet</a>''"

definition withDatasheetDom :: dom where
  \<comment> \<open>the document of \<open>withDatasheetHtml\<close>: the table and a link to the datasheet\<close>
  "withDatasheetDom =
     specsOnlyDom\<lparr> anchors := [(''https://example.com/m1.pdf'', ''Datasheet'')] \<rparr>"

definition groundedAnswer :: string where
  \<comment> \<open>an answer of the model that uses the three labels of the table\<close>
  "groundedAnswer =
     ''{'' @ [CHR 0x22] @ ''keyFeatures'' @ [CHR 0x22] @ '': [''
     @ [CHR 0x22] @ ''Phase: 1'' @ [CHR 0x22] @ '', ''
     @ [CHR 0x22] @ ''Frequency: 60 Hz'' @ [CHR 0x22] @ '', ''
     @ [CHR 0x22] @ ''Model: M1-1120-3'' @ [CHR 0x22] @ '']}''"

definition ungroundedAnswer :: string where
  \<comment> \<open>an answer of the model with a label that is no key of the input specs\<close>
  "ungroundedAnswer =
     ''{'' @ [CHR 0x22] @ ''keyFeatures'' @ [CHR 0x22] @ '': [''
     @ [CHR 0x22] @ ''Color: Red'' @ [CHR 0x22] @ '']}''"

definition exampleParse :: "string \<Rightarrow> json option" where
  \<comment> \<open>\<open>JSON.parse\<close> on the two answers\<close>
  "exampleParse t =
     (if t = groundedAnswer
      then Some (JObj [(''keyFeatures'',
                        JArr [JStr ''Phase: 1'', JStr ''Frequency: 60 Hz'',
                              JStr ''Model: M1-1120-3''])])
      else if t = ungroundedAnswer
      then Some (JObj [(''keyFeatures'', JArr [JStr ''Color: Red''])])
      else None)"

definition specsOnlyPlatform :: platform where
  "specsOnlyPlatform =
     \<lparr> cheerioLoad = (\<lambda>h. if h = specsOnlyHtml then Some specsOnlyDom
                           else if h = withDatasheetHtml then Some withDatasheetDom
                           else None),
       jsonParse = exampleParse, evalBCData = (\<lambda>t. None),
       decodeURIComponent = (\<lambda>t. Some t), newURL = (\<lambda>href base. Some href) \<rparr>"


definition ungroundedGemini :: "SynthesisInput \<Rightarrow> error + string" where
  "ungroundedGemini input = Inr ungroundedAnswer"



definition frequencyInput :: SynthesisInput where
  "frequencyInput =
     \<lparr> mpn_si = ''M1-1120-3'', manufacturer_si = ''SurgePure'',
       canonicalTitle_si = ''SurgePure M1-1120-3'', specs_si = [(''Frequency'', ''60 Hz'')],
       images_si = [], datasheets_si = [], notes_si = None, verbatimDescriptors = [] \<rparr>"

definition noDisk :: "string \<Rightarrow> json option option" where
  \<comment> \<open>no datasheet JSON is cached\<close>
  "noDisk m = None"

definition raProduct :: ExtractedProduct where
  "raProduct =
     \<lparr> mpn_ep = ''M1-1120-3RA'', manufacturer_ep = ''SurgePure'',
       sourceUrl_ep = ''https://example.com/p/1'', sourceType = distributor,
       confidence_ep = 0.55, canonicalTitle_ep = None, displayTitle_ep = None,
       specs_ep = [(''Remote Alarm'', ''No'')], verbatimSections_ep = None,
       images_ep = None, datasheets_ep = None, rawDatasheet = None \<rparr>"

definition distProduct :: ExtractedProduct where
  "distProduct =
     \<lparr> mpn_ep = ''M1-1120-3'', manufacturer_ep = ''SurgePure'',
       sourceUrl_ep = ''https://example.com/p/1'', sourceType = distributor,
       confidence_ep = 0.55, canonicalTitle_ep = None, displayTitle_ep = None,
       specs_ep = [(''Voltage'', ''120 V''), (''Phase'', ''Single'')],
       verbatimSections_ep = None, images_ep = None, datasheets_ep = None,
       rawDatasheet = None \<rparr>"

definition oemProduct :: ExtractedProduct where
  "oemProduct =
     \<lparr> mpn_ep = ''M1-1120-3'', manufacturer_ep = ''SurgePure'',
       sourceUrl_ep = ''https://oem.example/m1'', sourceType = oem,
       confidence_ep = 0.8, canonicalTitle_ep = Some ''SurgePure M1-1120-3'',
       displayTitle_ep = None, specs_ep = [(''System Voltage'', ''120/240 V'')],
       verbatimSections_ep = None, images_ep = None, datasheets_ep = None,
       rawDatasheet = None \<rparr>"

definition datasheetOnly :: ExtractedProduct where
  \<comment> \<open>a datasheet product that carries its blob, as a caller passes it\<close>
  "datasheetOnly =
     \<lparr> mpn_ep = ''M1-1120-3'', manufacturer_ep = ''SurgePure'',
       sourceUrl_ep = ''datasheet:M1-1120-3'', sourceType = datasheet,
       confidence_ep = 0.95, canonicalTitle_ep = None, displayTitle_ep = None,
       specs_ep = [], verbatimSections_ep = None, images_ep = None, datasheets_ep = None,
       rawDatasheet = Some (JObj
         [(''marketing_overview'', JStr ''Surge protection for panels''),
          (''electrical_specs'', JObj [(''max_service_size_raw'', JStr ''200 A'')])]) \<rparr>"

definition overviewIn :: verbatim_in where
  "overviewIn = \<lparr> heading = Some ''Overview'', text_v = ''Surge protection for panels'',
                  source_v = Some ''datasheet:M1-1120-3'' \<rparr>"

definition overviewOut :: verbatim_out where
  "overviewOut = \<lparr> heading_n = Some ''Overview'', text_n = ''Surge protection for panels'',
                   source_n = ''datasheet:M1-1120-3'', confidence_n = 0.95 \<rparr>"

definition datasheetResult :: "verbatim_out list \<Rightarrow> NormalizedProduct" where
  "datasheetResult sections =
     \<lparr> mpn_np = ''M1-1120-3'', manufacturer_np = ''SurgePure'',
       canonicalTitle_np = ''SurgePure M1-1120-3'', displayTitle_np = ''SurgePure M1-1120-3'',
       specs_np = [(''Max Service Size'',
                    \<lparr> value_s = ''200 A'', sources = [''datasheet:M1-1120-3''],
                      confidence_s = 0.95 \<rparr>)],
       verbatimSections_np = sections,
       images_np = [], datasheets_np = [], overallConfidence = 0.95 \<rparr>"

definition pdfLines17 :: "string list" where
  \<comment> \<open>the header of a spec table, sixteen rows of the table and one row of ratings\<close>
  "pdfLines17 =
     [''Model NumberM1-1120-3'',
      ''Hz 60'', ''kA 80'', ''Ph 3'', ''In 20'', ''Up 2'', ''Uc 320'', ''IP 65'', ''UL 1449'',
      ''CE 1'', ''kg 2'', ''cm 30'', ''AC 480'', ''DC 0'', ''NO 1'', ''NC 1'', ''Yr 10'',
      ''700/1200'']"

definition pdfText17 :: string where
  "pdfText17 = joinWith [CHR 0x0A] pdfLines17"

definition pdfText18 :: string where
  "pdfText18 = joinWith [CHR 0x0A] (pdfLines17 @ [''RA 1''])"

definition mappedAnswer :: json where
  "mappedAnswer =
     JObj [(''model'', JStr ''M1-1120-3''),
           (''specs'', JObj [(''Frequency'', JStr ''60 Hz''), (''Remote Alarm'', JNull)])]"

definition pdfWorld :: "string \<Rightarrow> pdf_world" where
  \<comment> \<open>the download succeeds, the PDF has the given text, the model gives
      \<open>mappedAnswer\<close>\<close>
  "pdfWorld t =
     \<lparr> pdf_net = (\<lambda>n. Some \<lparr> status_pdf = 200, bytes_pdf = ''%PDF'' \<rparr>),
       pdf_parse = (\<lambda>b. Some (Some t)),
       pdf_gemini = (\<lambda>req. Some mappedAnswer) \<rparr>"

section \<open>Theorems\<close>

subsection \<open>Character classes on the bits of a character\<close>

text \<open>
  The character classes are defined by the numeric ranges of their members. The
  following equations restate them on the eight bits of a character (the first bit is
  the least significant one); they are the code equations, so that a concrete string
  is evaluated without arithmetic.
\<close>

lemma isUpper_code [code]:
  "isUpper (Char b0 b1 b2 b3 b4 b5 b6 b7) =
     (\<not> b7 \<and> b6 \<and> \<not> b5 \<and> (b0 \<or> b1 \<or> b2 \<or> b3 \<or> b4)
      \<and> \<not> (b4 \<and> b3 \<and> (b2 \<or> (b1 \<and> b0))))"
  by (cases b0; cases b1; cases b2; cases b3; cases b4; cases b5; cases b6; cases b7)
     (simp_all add: isUpper_def)

lemma isLower_code [code]:
  "isLower (Char b0 b1 b2 b3 b4 b5 b6 b7) =
     (\<not> b7 \<and> b6 \<and> b5 \<and> (b0 \<or> b1 \<or> b2 \<or> b3 \<or> b4)
      \<and> \<not> (b4 \<and> b3 \<and> (b2 \<or> (b1 \<and> b0))))"
  by (cases b0; cases b1; cases b2; cases b3; cases b4; cases b5; cases b6; cases b7)
     (simp_all add: isLower_def)

lemma isDigit_code [code]:
  "isDigit (Char b0 b1 b2 b3 b4 b5 b6 b7) =
     (\<not> b7 \<and> \<not> b6 \<and> b5 \<and> b4 \<and> \<not> (b3 \<and> (b2 \<or> b1)))"
  by (cases b0; cases b1; cases b2; cases b3; cases b4; cases b5; cases b6; cases b7)
     (simp_all add: isDigit_def)

lemma isWhiteSpace_code [code]:
  "isWhiteSpace (Char b0 b1 b2 b3 b4 b5 b6 b7) =
     ((\<not> b7 \<and> \<not> b6 \<and> \<not> b5 \<and> \<not> b4 \<and> b3
         \<and> ((\<not> b2 \<and> (b1 \<or> b0)) \<or> (b2 \<and> \<not> b1)))
      \<or> (\<not> b6 \<and> b5 \<and> \<not> b4 \<and> \<not> b3 \<and> \<not> b2 \<and> \<not> b1 \<and> \<not> b0))"
  by (cases b0; cases b1; cases b2; cases b3; cases b4; cases b5; cases b6; cases b7)
     (simp_all add: isWhiteSpace_def)

lemma toLowerChar_code [code]:
  "toLowerChar (Char b0 b1 b2 b3 b4 b5 b6 b7) =
     (if isUpper (Char b0 b1 b2 b3 b4 b5 b6 b7) then Char b0 b1 b2 b3 b4 True b6 b7
      else Char b0 b1 b2 b3 b4 b5 b6 b7)"
  by (cases b0; cases b1; cases b2; cases b3; cases b4; cases b5; cases b6; cases b7)
     (simp_all add: toLowerChar_def isUpper_def char_of_eq_iff)

lemma toUpperChar_code [code]:
  "toUpperChar (Char b0 b1 b2 b3 b4 b5 b6 b7) =
     (if isLower (Char b0 b1 b2 b3 b4 b5 b6 b7) then Char b0 b1 b2 b3 b4 False b6 b7
      else Char b0 b1 b2 b3 b4 b5 b6 b7)"
  by (cases b0; cases b1; cases b2; cases b3; cases b4; cases b5; cases b6; cases b7)
     (simp_all add: toUpperChar_def isLower_def char_of_eq_iff)

subsection \<open>Discovery confidence\<close>

lemma discover_nonempty:
  assumes "rankedSearch (serperQuery1 mpn manufacturer) = Inr (p # rest)"
  shows "\<exists>r. discoverProductSources rankedSearch mpn manufacturer = Inr r
           \<and> confidence r = separationConfidence (p # rest) p
           \<and> primaryProductUrl r = Some (url p)"
  using assms by (simp add: discoverProductSources_def)

text \<open>
  C7. Whenever the ranked result list of the first query has at least one candidate,
  \<open>discoverProductSources\<close> returns a result whose confidence is determined by the two
  leading scores \<open>s\<^sub>1\<close>, \<open>s\<^sub>2\<close> of the list: high when there is a single candidate, otherwise
  high when \<open>s\<^sub>1 - s\<^sub>2 > 0.15\<close>, medium when \<open>0.05 < s\<^sub>1 - s\<^sub>2 \<le> 0.15\<close>, and low in the
  remaining case. The list being ranked, \<open>s\<^sub>1\<close> bounds every score and \<open>s\<^sub>2\<close> bounds every
  score but the first.
\<close>

theorem C7_discovery_confidence:
  assumes "rankedSearch (serperQuery1 mpn manufacturer) = Inr (p # rest)"
      and "ranked (p # rest)"
  shows "\<exists>r. discoverProductSources rankedSearch mpn manufacturer = Inr r
           \<and> (\<forall>c \<in> set rest. score c \<le> score p)
           \<and> (rest = [] \<longrightarrow> confidence r = High)
           \<and> (\<forall>q more. rest = q # more \<longrightarrow>
                 (\<forall>c \<in> set more. score c \<le> score q)
               \<and> (score p - score q > 0.15 \<longrightarrow> confidence r = High)
               \<and> (0.05 < score p - score q \<and> score p - score q \<le> 0.15
                     \<longrightarrow> confidence r = Medium)
               \<and> (score p - score q \<le> 0.05 \<longrightarrow> confidence r = Low))"
proof -
  from discover_nonempty [of rankedSearch mpn manufacturer p rest] assms(1) obtain r where
    r: "discoverProductSources rankedSearch mpn manufacturer = Inr r"
       "confidence r = separationConfidence (p # rest) p"
    by blast
  have top: "\<forall>c \<in> set rest. score c \<le> score p"
    using assms(2) by (simp add: ranked_def)
  have one: "rest = [] \<longrightarrow> confidence r = High"
    using r(2) by (simp add: separationConfidence_def)
  have two: "\<forall>q more. rest = q # more \<longrightarrow>
                 (\<forall>c \<in> set more. score c \<le> score q)
               \<and> (score p - score q > 0.15 \<longrightarrow> confidence r = High)
               \<and> (0.05 < score p - score q \<and> score p - score q \<le> 0.15
                     \<longrightarrow> confidence r = Medium)
               \<and> (score p - score q \<le> 0.05 \<longrightarrow> confidence r = Low)"
    using r(2) assms(2) by (auto simp: separationConfidence_def ranked_def Let_def)
  from r(1) top one two show ?thesis by blast
qed

theorem C7_discovery_confidence_witness:
  "discoverProductSources exampleSearch ''M1-1120-3'' ''SurgePure'' =
     Inr \<lparr> primaryProductUrl = Some ''https://a.example/products/m1'',
           backupUrls = [''https://b.example/m1.pdf''],
           pdfUrls = [''https://b.example/m1.pdf''],
           confidence = Medium \<rparr>"
proof -
  let ?p = "\<lparr>url = ''https://a.example/products/m1'', score = 0.9\<rparr>"
  let ?q = "\<lparr>url = ''https://b.example/m1.pdf'', score = 0.8\<rparr>"
  have search: "exampleSearch (serperQuery1 ''M1-1120-3'' ''SurgePure'') = Inr (?p # [?q])"
    by (simp add: exampleSearch_def)
  have rk: "ranked (?p # [?q])"
    by (simp add: ranked_def)
  from C7_discovery_confidence [of exampleSearch "''M1-1120-3''" "''SurgePure''" ?p "[?q]"]
    search rk
  obtain r where r: "discoverProductSources exampleSearch ''M1-1120-3'' ''SurgePure'' = Inr r"
    and m: "confidence r = Medium"
    by auto
  have pdf: "isPdfUrl ?q" "\<not> isPdfUrl ?p"
    by (code_simp, code_simp)
  from r m pdf show ?thesis
    by (auto simp: discoverProductSources_def exampleSearch_def)
qed

subsection \<open>Crawler\<close>

lemma fetchAttempt_reason:
  "fetchAttempt outcome = Inr why \<Longrightarrow> why = fetch_failed \<or> why = fallback_reason.non_product"
  by (auto simp: fetchAttempt_def split: option.splits if_splits)

lemma fetchAttempt_result:
  "fetchAttempt outcome = Inl r \<Longrightarrow> html r \<noteq> None \<and> crawlConfidence r = Some High"
  by (auto simp: fetchAttempt_def split: option.splits if_splits)

lemma fastFetchLoop_result:
  "fastFetchLoop net attempts fallback = Inl r \<Longrightarrow> html r \<noteq> None"
proof (induction attempts arbitrary: fallback)
  case Nil
  then show ?case by simp
next
  case (Cons attempt rest)
  show ?case
  proof (cases "fetchAttempt (net attempt)")
    case (Inl result)
    with Cons.prems have "r = result" by simp
    with Inl fetchAttempt_result show ?thesis by blast
  next
    case (Inr why)
    with Cons.prems have "fastFetchLoop net rest (Some why) = Inl r" by simp
    then show ?thesis by (rule Cons.IH)
  qed
qed

lemma crawlWithPlaywright_null:
  "crawlWithPlaywright b u fallback = Inr r \<Longrightarrow> html r = None \<Longrightarrow>
     crawlConfidence r = Some Low"
  by (auto simp: crawlWithPlaywright_def Let_def split: page_outcome.splits if_splits)

text \<open>
  C9. Every CrawlResult that \<open>crawlPage\<close> returns, by the fetch path or by the headless
  browser, has crawl confidence low when its html is null.
\<close>

theorem C9_null_html_low_confidence:
  assumes "crawlPage net b u = Inr r" and "html r = None"
  shows "crawlConfidence r = Some Low"
proof (cases "fastFetchLoop net [0, 1] None")
  case (Inl result)
  with assms(1) have "r = result" by (simp add: crawlPage_def)
  with Inl fastFetchLoop_result assms(2) show ?thesis by blast
next
  case (Inr fallback)
  with assms(1) have "crawlWithPlaywright b u fallback = Inr r" by (simp add: crawlPage_def)
  from this assms(2) show ?thesis by (rule crawlWithPlaywright_null)
qed

theorem C9_null_html_low_confidence_witness:
  "crawlPage deadNetwork throwingBrowser ''https://example.com/p'' =
     Inr \<lparr> finalUrl = ''https://example.com/p'', html = None, usedPlaywright = True,
           contentType = None, fallbackReason = Some fetch_failed,
           crawlConfidence = Some Low \<rparr>
   \<and> crawlConfidence \<lparr> finalUrl = ''https://example.com/p'', html = None, usedPlaywright = True,
           contentType = None, fallbackReason = Some fetch_failed,
           crawlConfidence = Some Low \<rparr> = Some Low"
proof -
  let ?r = "\<lparr> finalUrl = ''https://example.com/p'', html = None, usedPlaywright = True,
           contentType = None, fallbackReason = Some fetch_failed,
           crawlConfidence = Some Low \<rparr>"
  have run: "crawlPage deadNetwork throwingBrowser ''https://example.com/p'' = Inr ?r"
    by (simp add: crawlPage_def fetchAttempt_def tryFetchOnce_def deadNetwork_def
        throwingBrowser_def crawlWithPlaywright_def)
  have null: "html ?r = None" by simp
  from C9_null_html_low_confidence [OF run null] run show ?thesis by simp
qed

text \<open>
  C5, as stated, fails: with both fetch attempts throwing and the navigation throwing,
  the reason that is returned is the one the fetch loop recorded, \<open>fetch_failed\<close>, and not
  \<open>captcha_or_js\<close>.
\<close>

theorem C5_counterexample:
  "fetchAttempt (deadNetwork 0) = Inr fetch_failed
   \<and> fetchAttempt (deadNetwork 1) = Inr fetch_failed
   \<and> pageOutcome throwingBrowser = NavigationThrows
   \<and> crawlPage deadNetwork throwingBrowser ''https://example.com/p'' =
       Inr \<lparr> finalUrl = ''https://example.com/p'', html = None, usedPlaywright = True,
             contentType = None, fallbackReason = Some fetch_failed,
             crawlConfidence = Some Low \<rparr>"
  by (simp add: crawlPage_def fetchAttempt_def tryFetchOnce_def deadNetwork_def
      throwingBrowser_def crawlWithPlaywright_def)

text \<open>
  C5, amended. When both fetch attempts fail their validation and the navigation of the
  headless browser throws, \<open>crawlPage\<close> returns (unless closing the browser throws) the
  result with html null, crawl confidence low and, as fallback reason, the reason that
  the second fetch attempt recorded: \<open>fetch_failed\<close> or \<open>non_product\<close>.
\<close>

theorem C5_navigation_throws_amended:
  assumes "fetchAttempt (net 0) = Inr r0"
      and "fetchAttempt (net 1) = Inr r1"
      and "pageOutcome b = NavigationThrows"
  shows "crawlPage net b u =
           (if closeThrows b then Inl BrowserError
            else Inr \<lparr> finalUrl = u, html = None, usedPlaywright = True,
                       contentType = None, fallbackReason = Some r1,
                       crawlConfidence = Some Low \<rparr>)
         \<and> (r1 = fetch_failed \<or> r1 = fallback_reason.non_product)"
proof -
  have loop: "fastFetchLoop net [0, 1] None = Inr (Some r1)"
    using assms(1,2) by simp
  have pw: "crawlWithPlaywright b u (Some r1) =
           (if closeThrows b then Inl BrowserError
            else Inr \<lparr> finalUrl = u, html = None, usedPlaywright = True,
                       contentType = None, fallbackReason = Some r1,
                       crawlConfidence = Some Low \<rparr>)"
    using assms(3) by (simp add: crawlWithPlaywright_def)
  from loop pw fetchAttempt_reason [OF assms(2)] show ?thesis
    by (simp add: crawlPage_def)
qed

theorem C5_navigation_throws_amended_witness:
  "crawlPage deadNetwork throwingBrowser ''https://example.com/p'' =
     Inr \<lparr> finalUrl = ''https://example.com/p'', html = None, usedPlaywright = True,
           contentType = None, fallbackReason = Some fetch_failed,
           crawlConfidence = Some Low \<rparr>"
proof -
  have a0: "fetchAttempt (deadNetwork 0) = Inr fetch_failed"
    by (simp add: fetchAttempt_def tryFetchOnce_def deadNetwork_def)
  have a1: "fetchAttempt (deadNetwork 1) = Inr fetch_failed"
    by (simp add: fetchAttempt_def tryFetchOnce_def deadNetwork_def)
  have nav: "pageOutcome throwingBrowser = NavigationThrows"
    by (simp add: throwingBrowser_def)
  from C5_navigation_throws_amended [OF a0 a1 nav, of "''https://example.com/p''"]
  show ?thesis by (simp add: throwingBrowser_def)
qed

subsection \<open>Quality floor of the extractor\<close>

lemma extractFromDom_quality:
  "\<exists>q. qualityScore (extractFromDom pf d src m manuf) = Some q
       \<and> (q < 0.30 \<longrightarrow> \<not> ok (extractFromDom pf d src m manuf)
                        \<and> reason (extractFromDom pf d src m manuf) = Some low_quality)
       \<and> (\<not> q < 0.30 \<longrightarrow> ok (extractFromDom pf d src m manuf)
                        \<and> reason (extractFromDom pf d src m manuf) = None)"
  by (simp add: extractFromDom_def Let_def)

lemma qualityOf_specs_only:
  "sp \<noteq> [] \<Longrightarrow> qualityOf None sp [] [] None = 0.30"
  by (simp add: qualityOf_def)

lemma specsOnly_guardrails:
  "guardrails specsOnlyHtml ''https://example.com/p/1'' ''M1-1120-3'' = None"
  by code_simp

lemma specsOnly_extraction:
  "extractFromHtml specsOnlyPlatform (Some specsOnlyHtml) ''https://example.com/p/1''
     ''M1-1120-3'' (Some ''SurgePure'') =
   \<lparr> ok = True, reason = None, qualityScore = Some 0.30,
     sourceUrl_er = ''https://example.com/p/1'', displayTitle_er = None,
     canonicalTitle_er = ''SurgePure M1-1120-3'', productTitle = ''SurgePure M1-1120-3'',
     mpn_er = ''M1-1120-3'', manufacturer_er = Some ''SurgePure'',
     specs_er = [(''Phase'', ''1''), (''Frequency'', ''60 Hz''), (''Model'', ''M1-1120-3'')],
     overview_er = None, images_er = [], datasheets_er = [] \<rparr>"
  by code_simp

text \<open>
  C6, as stated, fails: a page with a specification table and nothing else passes the
  guardrails, has the quality score 0.30 exactly, and is returned with \<open>ok = true\<close> and
  without a reason.
\<close>

theorem C6_counterexample:
  "guardrails specsOnlyHtml ''https://example.com/p/1'' ''M1-1120-3'' = None
   \<and> qualityScore (extractFromHtml specsOnlyPlatform (Some specsOnlyHtml)
         ''https://example.com/p/1'' ''M1-1120-3'' (Some ''SurgePure'')) = Some 0.30
   \<and> ok (extractFromHtml specsOnlyPlatform (Some specsOnlyHtml)
         ''https://example.com/p/1'' ''M1-1120-3'' (Some ''SurgePure'')) = True
   \<and> reason (extractFromHtml specsOnlyPlatform (Some specsOnlyHtml)
         ''https://example.com/p/1'' ''M1-1120-3'' (Some ''SurgePure'')) = None"
  by (simp add: specsOnly_guardrails specsOnly_extraction)

text \<open>
  C6, amended. For every input that passes the guardrails and loads, the extractor
  computes a quality score and compares it with the floor by a strict less-than test:
  below 0.30 the result has \<open>ok = false\<close> and the reason \<open>low_quality\<close>; at 0.30 exactly
  (in particular for a page with specifications only) and above, the result has
  \<open>ok = true\<close> and no reason.
\<close>

theorem C6_quality_floor_amended:
  assumes "h \<noteq> []"
      and "guardrails h src m = None"
      and "cheerioLoad pf h = Some d"
  shows "\<exists>q. qualityScore (extractFromHtml pf (Some h) src m manuf) = Some q
           \<and> (q < 0.30 \<longrightarrow> \<not> ok (extractFromHtml pf (Some h) src m manuf)
                  \<and> reason (extractFromHtml pf (Some h) src m manuf) = Some low_quality)
           \<and> (q = 0.30 \<longrightarrow> ok (extractFromHtml pf (Some h) src m manuf)
                  \<and> reason (extractFromHtml pf (Some h) src m manuf) = None)
           \<and> (q > 0.30 \<longrightarrow> ok (extractFromHtml pf (Some h) src m manuf)
                  \<and> reason (extractFromHtml pf (Some h) src m manuf) = None)"
proof -
  have run: "extractFromHtml pf (Some h) src m manuf = extractFromDom pf d src m manuf"
    using assms by (simp add: extractFromHtml_def)
  from extractFromDom_quality [of pf d src m manuf] obtain q where
    q: "qualityScore (extractFromDom pf d src m manuf) = Some q"
       "q < 0.30 \<longrightarrow> \<not> ok (extractFromDom pf d src m manuf)
                        \<and> reason (extractFromDom pf d src m manuf) = Some low_quality"
       "\<not> q < 0.30 \<longrightarrow> ok (extractFromDom pf d src m manuf)
                        \<and> reason (extractFromDom pf d src m manuf) = None"
    by blast
  from q(3) have
    "q = 0.30 \<longrightarrow> ok (extractFromDom pf d src m manuf)
                        \<and> reason (extractFromDom pf d src m manuf) = None"
    "q > 0.30 \<longrightarrow> ok (extractFromDom pf d src m manuf)
                        \<and> reason (extractFromDom pf d src m manuf) = None"
    by auto
  with q(1,2) run show ?thesis by auto
qed

theorem C6_quality_floor_amended_witness:
  "qualityScore (extractFromHtml specsOnlyPlatform (Some specsOnlyHtml)
         ''https://example.com/p/1'' ''M1-1120-3'' (Some ''SurgePure'')) = Some 0.30
   \<and> ok (extractFromHtml specsOnlyPlatform (Some specsOnlyHtml)
         ''https://example.com/p/1'' ''M1-1120-3'' (Some ''SurgePure''))"
proof -
  have ne: "specsOnlyHtml \<noteq> []" by (simp add: specsOnlyHtml_def)
  have l: "cheerioLoad specsOnlyPlatform specsOnlyHtml = Some specsOnlyDom"
    by (simp add: specsOnlyPlatform_def)
  have v: "qualityScore (extractFromHtml specsOnlyPlatform (Some specsOnlyHtml)
         ''https://example.com/p/1'' ''M1-1120-3'' (Some ''SurgePure'')) = Some 0.30"
    by (simp add: specsOnly_extraction)
  from C6_quality_floor_amended [OF ne specsOnly_guardrails l, of "Some ''SurgePure''"] v
  show ?thesis by auto
qed

subsection \<open>Spec merge of the normalizer\<close>

lemma map_of_update_all:
  "map_of (map (\<lambda>kv. if fst kv = k then (k, v) else kv) r) k' =
     (if k' = k then map_option (\<lambda>_. v) (map_of r k) else map_of r k')"
  by (induction r) auto

lemma map_of_insert_fresh:
  assumes "k \<notin> fst ` set xs"
  shows "map_of (xs @ [(k, v)] @ ys) = (map_of (xs @ ys))(k \<mapsto> v)"
proof (rule ext)
  fix k'
  show "map_of (xs @ [(k, v)] @ ys) k' = ((map_of (xs @ ys))(k \<mapsto> v)) k'"
    using assms by (induction xs) auto
qed

lemma recordSet_map_of:
  assumes "k \<noteq> ''__proto__''"
  shows "map_of (recordSet r k v) = (map_of r)(k \<mapsto> v)"
proof (cases "k \<in> set (map fst r)")
  case True
  have "map_of (map (\<lambda>kv. if fst kv = k then (k, v) else kv) r) = (map_of r)(k \<mapsto> v)"
  proof (rule ext)
    fix k'
    from True obtain w where "map_of r k = Some w"
      by (cases "map_of r k") (auto simp: map_of_eq_None_iff)
    then show "map_of (map (\<lambda>kv. if fst kv = k then (k, v) else kv) r) k'
                 = ((map_of r)(k \<mapsto> v)) k'"
      by (simp add: map_of_update_all)
  qed
  with True assms show ?thesis
    by (simp add: recordSet_def)
next
  case False
  let ?smaller = "\<lambda>kv. isArrayIndex (fst kv) \<and> parseNat (fst kv) < parseNat k"
  have notin: "k \<notin> fst ` set (takeWhile ?smaller r)"
    using False by (auto dest: set_takeWhileD)
  have mid: "map_of (takeWhile ?smaller r @ [(k, v)] @ dropWhile ?smaller r)
               = (map_of r)(k \<mapsto> v)"
    using map_of_insert_fresh [OF notin, of v "dropWhile ?smaller r"] by simp
  have notin': "k \<notin> fst ` set r" using False by simp
  have app: "map_of (r @ [(k, v)]) = (map_of r)(k \<mapsto> v)"
    using map_of_insert_fresh [OF notin', of v "[]"] by simp
  from False assms mid app show ?thesis
    by (simp add: recordSet_def Let_def)
qed

lemma canonicalKeyOf_not_proto: "canonicalKeyOf key \<noteq> ''__proto__''"
  by (simp add: canonicalKeyOf_def nativeFunctionString_def objectPrototypeKeys_def)

lemma foldl_mergeProduct:
  "foldl mergeProduct m ps = foldl mergeStep m (contributions ps)"
proof (induction ps arbitrary: m)
  case Nil
  then show ?case by (simp add: contributions_def)
next
  case (Cons p ps)
  have inner: "foldl (mergeSpec p) m kvs = foldl mergeStep m (map (Pair p) kvs)" for kvs m
    by (induction kvs arbitrary: m) (simp_all add: mergeStep_def)
  show ?case
    using Cons.IH [of "mergeProduct m p"]
    by (simp add: contributions_def mergeProduct_def inner)
qed

lemma entryOk_first:
  assumes "snd (snd c) \<noteq> []"
  shows "entryOk [c] \<lparr> value_s = snd (snd c), sources = [sourceUrl_ep (fst c)],
                       confidence_s = confidence_ep (fst c) \<rparr>"
  by (simp add: entryOk_def)

lemma entryOk_next:
  assumes ok: "entryOk rs e"
  shows "entryOk (rs @ [c])
           (let e1 = (if confidence_ep (fst c) > confidence_s e
                      then e\<lparr> value_s := snd (snd c), confidence_s := confidence_ep (fst c) \<rparr>
                      else e);
                e2 = (if sourceUrl_ep (fst c) \<notin> set (sources e1)
                      then e1\<lparr> sources := sources e1 @ [sourceUrl_ep (fst c)] \<rparr>
                      else e1)
            in e2)"
proof -
  let ?S = "set (map (\<lambda>c. confidence_ep (fst c)) rs)"
  define e1 where "e1 = (if confidence_ep (fst c) > confidence_s e
                      then e\<lparr> value_s := snd (snd c), confidence_s := confidence_ep (fst c) \<rparr>
                      else e)"
  define e2 where "e2 = (if sourceUrl_ep (fst c) \<notin> set (sources e1)
                      then e1\<lparr> sources := sources e1 @ [sourceUrl_ep (fst c)] \<rparr>
                      else e1)"
  from ok have ne: "rs \<noteq> []" and mx: "confidence_s e = Max ?S"
    and wit: "\<exists>d \<in> set rs. value_s e = snd (snd d) \<and> confidence_ep (fst d) = confidence_s e"
    and src: "set (sources e) = set (map (\<lambda>c. sourceUrl_ep (fst c)) rs)"
    unfolding entryOk_def by blast+
  have fin: "finite ?S" "?S \<noteq> {}" using ne by simp_all
  have max_new: "Max (set (map (\<lambda>c. confidence_ep (fst c)) (rs @ [c])))
                   = max (confidence_ep (fst c)) (confidence_s e)"
    using fin mx by simp
  have conf2: "confidence_s e2 = max (confidence_ep (fst c)) (confidence_s e)"
    by (simp add: e2_def e1_def max_def)
  have src2: "set (sources e2) = set (map (\<lambda>c. sourceUrl_ep (fst c)) (rs @ [c]))"
    using src by (auto simp: e2_def e1_def)
  have wit2: "\<exists>d \<in> set (rs @ [c]).
                value_s e2 = snd (snd d) \<and> confidence_ep (fst d) = confidence_s e2"
  proof (cases "confidence_ep (fst c) > confidence_s e")
    case True
    then have "value_s e2 = snd (snd c)" "confidence_s e2 = confidence_ep (fst c)"
      by (simp_all add: e2_def e1_def)
    then show ?thesis by simp
  next
    case False
    then have same: "value_s e2 = value_s e" "confidence_s e2 = confidence_s e"
      by (simp_all add: e2_def e1_def)
    from wit obtain d where "d \<in> set rs" "value_s e = snd (snd d)"
      "confidence_ep (fst d) = confidence_s e" by blast
    with same show ?thesis by auto
  qed
  have "entryOk (rs @ [c]) e2"
    unfolding entryOk_def using conf2 max_new src2 wit2 by simp
  then show ?thesis unfolding Let_def e2_def e1_def .
qed

lemma relevant_snoc:
  "relevant (cs @ [c]) k =
     (if snd (snd c) \<noteq> [] \<and> canonicalKeyOf (fst (snd c)) = k
      then relevant cs k @ [c] else relevant cs k)"
  by (simp add: relevant_def)

lemma mergeInv_None: "mergeInv m cs \<Longrightarrow> map_of m k = None \<Longrightarrow> relevant cs k = []"
  unfolding mergeInv_def by (drule spec [of _ k]) simp

lemma mergeInv_Some: "mergeInv m cs \<Longrightarrow> map_of m k = Some e \<Longrightarrow> entryOk (relevant cs k) e"
  unfolding mergeInv_def by (drule spec [of _ k]) simp

lemma mergeInv_intro:
  assumes "\<And>k. map_of m k = None \<Longrightarrow> relevant cs k = []"
      and "\<And>k e. map_of m k = Some e \<Longrightarrow> entryOk (relevant cs k) e"
  shows "mergeInv m cs"
  unfolding mergeInv_def using assms by (simp split: option.split)

lemma mergeInv_step:
  assumes inv: "mergeInv m cs"
  shows "mergeInv (mergeStep m c) (cs @ [c])"
proof (cases "snd (snd c) = []")
  case True
  then have same: "mergeStep m c = m" "\<And>k. relevant (cs @ [c]) k = relevant cs k"
    by (simp_all add: mergeStep_def mergeSpec_def relevant_snoc)
  show ?thesis
    using mergeInv_None [OF inv] mergeInv_Some [OF inv]
    by (intro mergeInv_intro) (simp_all add: same)
next
  case False
  let ?k0 = "canonicalKeyOf (fst (snd c))"
  have other: "relevant (cs @ [c]) k = relevant cs k" if "k \<noteq> ?k0" for k
    using that by (auto simp: relevant_snoc)
  have this_key: "relevant (cs @ [c]) ?k0 = relevant cs ?k0 @ [c]"
    using False by (simp add: relevant_snoc)
  obtain e' where step: "mergeStep m c = recordSet m ?k0 e'"
    and new: "entryOk (relevant cs ?k0 @ [c]) e'"
  proof (cases "map_of m ?k0")
    case None
    have "mergeStep m c = recordSet m ?k0
           \<lparr> value_s = snd (snd c), sources = [sourceUrl_ep (fst c)],
             confidence_s = confidence_ep (fst c) \<rparr>"
      using False None by (simp add: mergeStep_def mergeSpec_def Let_def)
    moreover have "relevant cs ?k0 = []" using inv None by (rule mergeInv_None)
    ultimately show ?thesis using entryOk_first [OF False] that by simp
  next
    case (Some e)
    have "mergeStep m c = recordSet m ?k0
            (let e1 = (if confidence_ep (fst c) > confidence_s e
                      then e\<lparr> value_s := snd (snd c), confidence_s := confidence_ep (fst c) \<rparr>
                      else e);
                e2 = (if sourceUrl_ep (fst c) \<notin> set (sources e1)
                      then e1\<lparr> sources := sources e1 @ [sourceUrl_ep (fst c)] \<rparr>
                      else e1)
            in e2)"
      using False Some by (simp add: mergeStep_def mergeSpec_def Let_def)
    moreover have "entryOk (relevant cs ?k0) e" using inv Some by (rule mergeInv_Some)
    ultimately show ?thesis using entryOk_next that by blast
  qed
  have look: "map_of (mergeStep m c) = (map_of m)(?k0 \<mapsto> e')"
    by (simp add: step recordSet_map_of [OF canonicalKeyOf_not_proto])
  show ?thesis
  proof (rule mergeInv_intro)
    fix k
    assume none: "map_of (mergeStep m c) k = None"
    then have "k \<noteq> ?k0" "map_of m k = None"
      by (auto simp: look split: if_splits)
    with other mergeInv_None [OF inv] show "relevant (cs @ [c]) k = []" by simp
  next
    fix k e
    assume some: "map_of (mergeStep m c) k = Some e"
    show "entryOk (relevant (cs @ [c]) k) e"
    proof (cases "k = ?k0")
      case True
      with some look have "e = e'" by simp
      with True new this_key show ?thesis by simp
    next
      case neq: False
      with some look have "map_of m k = Some e" by simp
      with neq other mergeInv_Some [OF inv] show ?thesis by simp
    qed
  qed
qed

lemma mergeInv_foldl:
  "mergeInv m cs \<Longrightarrow> mergeInv (foldl mergeStep m ds) (cs @ ds)"
proof (induction ds arbitrary: m cs)
  case Nil
  then show ?case by simp
next
  case (Cons d ds)
  from mergeInv_step [OF Cons.prems, of d]
  have "mergeInv (foldl mergeStep (mergeStep m d) ds) ((cs @ [d]) @ ds)"
    by (rule Cons.IH)
  then show ?case by simp
qed

lemma mergeInv_all: "mergeInv (foldl mergeProduct [] ps) (contributions ps)"
  using mergeInv_foldl [of "[]" "[]" "contributions ps"]
  by (simp add: foldl_mergeProduct mergeInv_def relevant_def)

lemma set_relevant_contributions:
  "set (relevant (contributions ps) k) =
     {(p, kv). p \<in> set ps \<and> kv \<in> set (specs_ep p) \<and> snd kv \<noteq> []
               \<and> canonicalKeyOf (fst kv) = k}"
  by (auto simp: relevant_def contributions_def)

lemma fst_relevant_contributions:
  "fst ` set (relevant (contributions ps) k) = set (contributors ps k)"
  by (force simp: set_relevant_contributions contributors_def list_ex_iff)

lemma normalizeProducts_specs:
  assumes "prepare disk hp0 products0 = Inr (hp, products)"
      and "normalizeProducts disk hp0 products0 canonicalMpn = Inr (n, hp')"
  shows "specs_np n =
           (if endsWith (mpn_np n) ''RA''
            then recordSet (foldl mergeProduct [] (map ((!) hp) products)) ''Remote Alarm''
                   \<lparr> value_s = ''Yes'', sources = [''variant:RA''], confidence_s = 0.95 \<rparr>
            else foldl mergeProduct [] (map ((!) hp) products))"
    and "hp' = hp"
  using assms by (auto simp: normalizeProducts_def Let_def)

text \<open>
  C3, as stated, fails for the entry that the RA overlay writes: the one source of an
  RA part gives "Remote Alarm" with confidence 0.55, and the returned entry has the
  confidence 0.95, the value of the overlay and not the url of that source.
\<close>

theorem C3_counterexample:
  "contributors [raProduct] ''Remote Alarm'' = [raProduct]
   \<and> confidence_ep raProduct = 0.55
   \<and> sourceUrl_ep raProduct = ''https://example.com/p/1''
   \<and> normalizeProducts noDisk [raProduct] [0] None =
       Inr (\<lparr> mpn_np = ''M1-1120-3RA'', manufacturer_np = ''SurgePure'',
               canonicalTitle_np = ''SurgePure M1-1120-3RA'',
               displayTitle_np = ''SurgePure M1-1120-3RA'',
               specs_np = [(''Remote Alarm'',
                            \<lparr> value_s = ''Yes'', sources = [''variant:RA''],
                              confidence_s = 0.95 \<rparr>)],
               verbatimSections_np =
                 [\<lparr> heading_n = Some ''Variant'',
                    text_n = ''Includes remote alarm for system monitoring.'',
                    source_n = ''variant:RA'', confidence_n = 0.95 \<rparr>],
               images_np = [], datasheets_np = [], overallConfidence = 0.55 \<rparr>,
            [raProduct])"
  by code_simp

text \<open>
  C3, amended. Let the list of sources be the products as \<open>normalizeProducts\<close> merges
  them (after the injection of a cached datasheet and the preprocessing of datasheet
  blobs). For every spec key \<open>k\<close> of the returned product, other than the entry
  "Remote Alarm" that the overlay writes when the effective MPN ends in "RA": some
  source contributes to \<open>k\<close>, the stored confidence is the maximum of the confidences of
  the contributing sources, the stored value is contributed by a source of that
  confidence, and the sources list contains the url of every contributing source.
\<close>

theorem C3_merge_confidence_amended:
  assumes prep: "prepare disk hp0 products0 = Inr (hp, products)"
      and run: "normalizeProducts disk hp0 products0 canonicalMpn = Inr (n, hp')"
      and key: "map_of (specs_np n) k = Some e"
      and notRA: "\<not> (endsWith (mpn_np n) ''RA'' \<and> k = ''Remote Alarm'')"
  shows "contributors (map ((!) hp) products) k \<noteq> []
       \<and> confidence_s e = Max (set (map confidence_ep (contributors (map ((!) hp) products) k)))
       \<and> list_ex (\<lambda>p. confidence_ep p = confidence_s e \<and> contributes p k (value_s e))
            (map ((!) hp) products)
       \<and> set (map sourceUrl_ep (contributors (map ((!) hp) products) k)) \<subseteq> set (sources e)"
proof -
  let ?ps = "map ((!) hp) products"
  let ?rs = "relevant (contributions ?ps) k"
  have "map_of (foldl mergeProduct [] ?ps) k = Some e"
  proof (cases "endsWith (mpn_np n) ''RA''")
    case True
    with notRA have "k \<noteq> ''Remote Alarm''" by simp
    with key True show ?thesis
      by (simp add: normalizeProducts_specs(1) [OF prep run] recordSet_map_of)
  next
    case False
    with key show ?thesis by (simp add: normalizeProducts_specs(1) [OF prep run])
  qed
  with mergeInv_all [of ?ps] have ok: "entryOk ?rs e" by (rule mergeInv_Some)
  then have ne: "?rs \<noteq> []" and mx: "confidence_s e = Max (set (map (\<lambda>c. confidence_ep (fst c)) ?rs))"
    and wit: "\<exists>c \<in> set ?rs. value_s e = snd (snd c) \<and> confidence_ep (fst c) = confidence_s e"
    and src: "set (sources e) = set (map (\<lambda>c. sourceUrl_ep (fst c)) ?rs)"
    unfolding entryOk_def by blast+
  have img: "fst ` set ?rs = set (contributors ?ps k)"
    by (rule fst_relevant_contributions)
  have c1: "contributors ?ps k \<noteq> []"
    using ne img by (metis image_is_empty set_empty)
  have "set (map (\<lambda>c. confidence_ep (fst c)) ?rs) = confidence_ep ` (fst ` set ?rs)"
    by (simp add: image_image)
  with mx img have c2: "confidence_s e = Max (set (map confidence_ep (contributors ?ps k)))"
    by simp
  from wit obtain c where c: "c \<in> set ?rs" "value_s e = snd (snd c)"
    "confidence_ep (fst c) = confidence_s e" by blast
  then have "fst c \<in> set ?ps" "snd c \<in> set (specs_ep (fst c))" "snd (snd c) \<noteq> []"
    "canonicalKeyOf (fst (snd c)) = k"
    by (auto simp: set_relevant_contributions)
  with c have c3: "list_ex (\<lambda>p. confidence_ep p = confidence_s e \<and> contributes p k (value_s e)) ?ps"
    unfolding list_ex_iff contributes_def by (intro bexI [of _ "fst c"] conjI bexI [of _ "snd c"]) auto
  have "set (map (\<lambda>c. sourceUrl_ep (fst c)) ?rs) = sourceUrl_ep ` (fst ` set ?rs)"
    by (simp add: image_image)
  with src img have c4: "set (map sourceUrl_ep (contributors ?ps k)) \<subseteq> set (sources e)"
    by simp
  from c1 c2 c3 c4 show ?thesis by blast
qed

theorem C3_merge_confidence_amended_witness:
  "contributors (map ((!) [distProduct, oemProduct]) [0, 1]) ''Nominal AC Line Voltage (VRMS)'' \<noteq> []
   \<and> confidence_s \<lparr> value_s = ''120/240 V'',
                      sources = [''https://example.com/p/1'', ''https://oem.example/m1''],
                      confidence_s = 0.8 \<rparr>
       = Max (set (map confidence_ep
           (contributors (map ((!) [distProduct, oemProduct]) [0, 1])
              ''Nominal AC Line Voltage (VRMS)'')))
   \<and> list_ex (\<lambda>p. confidence_ep p
                     = confidence_s \<lparr> value_s = ''120/240 V'',
                         sources = [''https://example.com/p/1'', ''https://oem.example/m1''],
                         confidence_s = 0.8 \<rparr>
                  \<and> contributes p ''Nominal AC Line Voltage (VRMS)''
                       (value_s \<lparr> value_s = ''120/240 V'',
                         sources = [''https://example.com/p/1'', ''https://oem.example/m1''],
                         confidence_s = 0.8 \<rparr>))
        (map ((!) [distProduct, oemProduct]) [0, 1])
   \<and> set (map sourceUrl_ep
         (contributors (map ((!) [distProduct, oemProduct]) [0, 1])
            ''Nominal AC Line Voltage (VRMS)''))
       \<subseteq> set (sources \<lparr> value_s = ''120/240 V'',
                         sources = [''https://example.com/p/1'', ''https://oem.example/m1''],
                         confidence_s = 0.8 \<rparr>)"
proof -
  let ?n = "\<lparr> mpn_np = ''M1-1120-3'', manufacturer_np = ''SurgePure'',
               canonicalTitle_np = ''SurgePure M1-1120-3'',
               displayTitle_np = ''SurgePure M1-1120-3'',
               specs_np = [(''Nominal AC Line Voltage (VRMS)'',
                            \<lparr> value_s = ''120/240 V'',
                              sources = [''https://example.com/p/1'', ''https://oem.example/m1''],
                              confidence_s = 0.8 \<rparr>),
                           (''Phase'',
                            \<lparr> value_s = ''Single'', sources = [''https://example.com/p/1''],
                              confidence_s = 0.55 \<rparr>)],
               verbatimSections_np = [], images_np = [], datasheets_np = [],
               overallConfidence = 0.675 \<rparr>"
  have prep: "prepare noDisk [distProduct, oemProduct] [0, 1]
                = Inr ([distProduct, oemProduct], [0, 1])"
    by code_simp
  have run: "normalizeProducts noDisk [distProduct, oemProduct] [0, 1] None
               = Inr (?n, [distProduct, oemProduct])"
    by code_simp
  have key: "map_of (specs_np ?n) ''Nominal AC Line Voltage (VRMS)''
               = Some \<lparr> value_s = ''120/240 V'',
                        sources = [''https://example.com/p/1'', ''https://oem.example/m1''],
                        confidence_s = 0.8 \<rparr>"
    by simp
  have notRA: "\<not> (endsWith (mpn_np ?n) ''RA''
                   \<and> ''Nominal AC Line Voltage (VRMS)'' = ''Remote Alarm'')"
    by simp
  show ?thesis
    by (rule C3_merge_confidence_amended [OF prep run key notRA])
qed


subsection \<open>Calling the normalizer twice\<close>

lemma foldl_update_same:
  "\<forall>a \<in> set as. f (h ! a) = h ! a \<Longrightarrow> foldl (\<lambda>h a. h[a := f (h ! a)]) h as = h"
  by (induction as) simp_all

lemma normalizeProducts_heap:
  assumes "normalizeProducts disk hp products canonicalMpn = Inr (n, hp')"
      and "list_ex (\<lambda>a. sourceType (hp ! a) = datasheet) products
           \<or> disk (mpn_ep (hp ! hd products)) = None"
      and "\<forall>a \<in> set products. preprocessDatasheet (hp ! a) = hp ! a"
  shows "hp' = hp"
proof -
  have "prepare disk hp products = Inr (hp, products)"
    using assms by (auto simp: prepare_def normalizeProducts_def Let_def foldl_update_same)
  with assms(1) show ?thesis
    by (simp add: normalizeProducts_def Let_def)
qed

text \<open>
  C4 fails on the code: the preprocessing loop pushes the sections it reads from the
  blob onto the \<open>verbatimSections\<close> of the product it was given. After the first call
  the caller's product holds the section "Overview"; the second call on the same list
  pushes it again, and its result has the section twice where the first has it once.
\<close>

theorem C4_second_call_differs:
  "normalizeProducts noDisk [datasheetOnly] [0] None =
     Inr (datasheetResult [overviewOut],
          [datasheetOnly\<lparr> specs_ep := [(''Max Service Size'', ''200 A'')],
                          verbatimSections_ep := Some [overviewIn] \<rparr>])
   \<and> normalizeProducts noDisk
         [datasheetOnly\<lparr> specs_ep := [(''Max Service Size'', ''200 A'')],
                         verbatimSections_ep := Some [overviewIn] \<rparr>] [0] None =
     Inr (datasheetResult [overviewOut, overviewOut],
          [datasheetOnly\<lparr> specs_ep := [(''Max Service Size'', ''200 A'')],
                          verbatimSections_ep := Some [overviewIn, overviewIn] \<rparr>])
   \<and> datasheetResult [overviewOut] \<noteq> datasheetResult [overviewOut, overviewOut]"
  by code_simp

subsection \<open>The pipeline: final confidence and the RA variant\<close>














subsection \<open>The synthesizer: key features and the input specs\<close>

lemma validateAgainstInput_keyFeatures:
  "keyFeatures (validateAgainstInput input output) = keyFeatures output"
  by (simp add: validateAgainstInput_def Let_def)

lemma synthesizeProductContent_keyFeatures:
  assumes "synthesizeProductContent gemini parse input = Inr out"
      and "specs_si input \<noteq> []"
  shows "\<exists>text parsed normalized.
           gemini input = Inr text \<and> extractJson parse text = Inr parsed
         \<and> normalizeSynthesisOutput parsed (canonicalTitle_si input) = Inr normalized
         \<and> keyFeatures out = keyFeatures normalized"
  using assms
  by (auto simp: synthesizeProductContent_def Let_def validateAgainstInput_keyFeatures
           split: sum.splits if_splits)

text \<open>
  C2 fails on the code: \<open>validateAgainstInput\<close> builds the set of the input's spec keys and
  then returns the key features it was given, unfiltered. With the specs
  \<open>{Frequency: "60 Hz"}\<close> and the accepted model answer \<open>{"keyFeatures": ["Color: Red"]}\<close>,
  the returned output keeps the feature "Color: Red", whose label "Color" is no key of
  the input specs (the content confidence, which does look the labels up, is 0).
\<close>

theorem C2_ungrounded_feature_survives:
  "(case synthesizeProductContent ungroundedGemini exampleParse frequencyInput of
      Inr out \<Rightarrow> Some (keyFeatures out, confidence_so out)
    | Inl e \<Rightarrow> None) = Some ([''Color: Red''], Some 0)
   \<and> featureLabel ''Color: Red'' = Some ''Color''
   \<and> map fst (specs_si frequencyInput) = [''Frequency'']
   \<and> inSpecs ''Color'' (specs_si frequencyInput) = False"
  by code_simp

subsection \<open>The row-count gate of the PDF extractor\<close>

lemma extractSpecs_text_only:
  "extractSpecs_pdf text models pdfUrl = extractSpecs_pdf text [] []"
  by (simp add: extractSpecs_pdf_def)

lemma extractFromPdf_rows:
  assumes "extractFromPdf w pdfUrl targetModel = Inr res"
  shows "18 \<le> length (rawRows res)"
  using assms
  by (auto simp: extractFromPdf_def Let_def
           split: sum.splits option.splits if_splits json.splits)

lemma extractFromPdf_mapped:
  assumes "fetchPdfBuffer (pdf_net w) pdfUrl = Inr buffer"
      and "parsePdfText (pdf_parse w) buffer = Inr rawText0"
      and "18 \<le> length (rawRows_p (extractSpecs_pdf (normalizePdfText rawText0) [] []))"
      and "\<And>req. pdf_gemini w req = Some (JObj kvs)"
      and "map_of kvs ''specs'' = Some (JObj sp)"
  shows "\<exists>res. extractFromPdf w pdfUrl targetModel = Inr res
             \<and> map key_ps (specs_pdf res) = map fst sp"
  using assms(1,2,3,5)
  by (simp add: extractFromPdf_def Let_def assms(4) objectEntries_def comp_def
                extractSpecs_text_only [of _ "detectModels _" pdfUrl])

lemma pdfText17_rows:
  "map key_row (rawRows_p (extractSpecs_pdf (normalizePdfText pdfText17) [] []))
   = [''Hz'', ''kA'', ''Ph'', ''In'', ''Up'', ''Uc'', ''IP'', ''UL'', ''CE'', ''kg'', ''cm'',
      ''AC'', ''DC'', ''NO'', ''NC'', ''Yr'', ''VPR Rating UL 1449, 5th Ed L-N/L-L @ 20kA'']"
  by code_simp

lemma pdfText18_rows:
  "map key_row (rawRows_p (extractSpecs_pdf (normalizePdfText pdfText18) [] []))
   = [''Hz'', ''kA'', ''Ph'', ''In'', ''Up'', ''Uc'', ''IP'', ''UL'', ''CE'', ''kg'', ''cm'',
      ''AC'', ''DC'', ''NO'', ''NC'', ''Yr'', ''VPR Rating UL 1449, 5th Ed L-N/L-L @ 20kA'',
      ''RA'']"
  by code_simp

lemma pdfWorld_text:
  "fetchPdfBuffer (pdf_net (pdfWorld t)) u = Inr ''%PDF''
   \<and> parsePdfText (pdf_parse (pdfWorld t)) ''%PDF'' = Inr t"
  by (simp add: pdfWorld_def fetchPdfBuffer_def parsePdfText_def)

text \<open>
  C8. Let the download and the text extraction of a PDF succeed, and let \<open>rows\<close> be the raw
  rows that \<open>extractSpecs\<close> collects from the normalized text. With fewer than 18 rows
  \<open>extractFromPdf\<close> throws the row-count error "Spec table incomplete". With 18 rows or
  more it does not: the gate passes, whatever it then throws is another error, and a
  result it returns carries these rows.
\<close>

theorem C8_row_count_gate:
  assumes "fetchPdfBuffer (pdf_net w) pdfUrl = Inr buffer"
      and "parsePdfText (pdf_parse w) buffer = Inr rawText0"
      and "rows = rawRows_p (extractSpecs_pdf (normalizePdfText rawText0)
                               (detectModels (repairText (normalizePdfText rawText0))) pdfUrl)"
  shows "(length rows < 18 \<longrightarrow>
            extractFromPdf w pdfUrl targetModel = Inl (SpecTableIncomplete (length rows)))
       \<and> (18 \<le> length rows \<longrightarrow>
            (\<forall>n. extractFromPdf w pdfUrl targetModel \<noteq> Inl (SpecTableIncomplete n))
          \<and> (\<forall>res. extractFromPdf w pdfUrl targetModel = Inr res \<longrightarrow> rawRows res = rows))"
  using assms
  by (auto simp: extractFromPdf_def Let_def split: option.splits json.splits)

theorem C8_row_count_gate_witness:
  "extractFromPdf (pdfWorld pdfText17) ''https://example.com/m1.pdf'' None
     = Inl (SpecTableIncomplete 17)
   \<and> (\<exists>res. extractFromPdf (pdfWorld pdfText18) ''https://example.com/m1.pdf'' None = Inr res
          \<and> length (rawRows res) = 18
          \<and> rawRows res = rawRows_p (extractSpecs_pdf (normalizePdfText pdfText18) [] [])
          \<and> map key_ps (specs_pdf res) = [''Frequency'', ''Remote Alarm''])"
proof -
  let ?u = "''https://example.com/m1.pdf''"
  have len17: "length (rawRows_p (extractSpecs_pdf (normalizePdfText pdfText17) [] [])) = 17"
    using arg_cong [OF pdfText17_rows, of length] by simp
  have len18: "length (rawRows_p (extractSpecs_pdf (normalizePdfText pdfText18) [] [])) = 18"
    using arg_cong [OF pdfText18_rows, of length] by simp
  have fetch: "fetchPdfBuffer (pdf_net (pdfWorld t)) ?u = Inr ''%PDF''" for t
    using pdfWorld_text [of t ?u] by simp
  have parse: "parsePdfText (pdf_parse (pdfWorld t)) ''%PDF'' = Inr t" for t
    using pdfWorld_text [of t ?u] by simp
  have rows: "rawRows_p (extractSpecs_pdf (normalizePdfText t)
                           (detectModels (repairText (normalizePdfText t))) ?u)
              = rawRows_p (extractSpecs_pdf (normalizePdfText t) [] [])" for t
    by (rule arg_cong [OF extractSpecs_text_only])
  have short: "extractFromPdf (pdfWorld pdfText17) ?u None = Inl (SpecTableIncomplete 17)"
    using C8_row_count_gate [where targetModel = None,
                             OF fetch [of pdfText17] parse [of pdfText17] refl]
    by (simp add: rows len17)
  have enough: "18 \<le> length (rawRows_p (extractSpecs_pdf (normalizePdfText pdfText18) [] []))"
    by (simp add: len18)
  have answer: "pdf_gemini (pdfWorld pdfText18) req
                  = Some (JObj [(''model'', JStr ''M1-1120-3''),
                                (''specs'', JObj [(''Frequency'', JStr ''60 Hz''),
                                                  (''Remote Alarm'', JNull)])])" for req
    by (simp add: pdfWorld_def mappedAnswer_def)
  have specs: "map_of [(''model'', JStr ''M1-1120-3''),
                       (''specs'', JObj [(''Frequency'', JStr ''60 Hz''),
                                         (''Remote Alarm'', JNull)])] ''specs''
               = Some (JObj [(''Frequency'', JStr ''60 Hz''), (''Remote Alarm'', JNull)])"
    by code_simp
  from extractFromPdf_mapped [where targetModel = None,
         OF fetch [of pdfText18] parse [of pdfText18] enough answer specs]
  obtain res where
    res: "extractFromPdf (pdfWorld pdfText18) ?u None = Inr res"
         "map key_ps (specs_pdf res) = [''Frequency'', ''Remote Alarm'']"
    by auto
  from C8_row_count_gate [where targetModel = None,
                          OF fetch [of pdfText18] parse [of pdfText18] refl] res(1)
  have "rawRows res = rawRows_p (extractSpecs_pdf (normalizePdfText pdfText18) [] [])"
    by (simp add: rows len18)
  with short res len18 show ?thesis by simp
qed

end
